theory Spec2Isabelle
  imports Complex_Main
begin

section \<open>The fraud scoring engine of app/services/anomaly_detector.py\<close>

text \<open>
  The embedding follows \<^verbatim>\<open>AnomalyDetector\<close> function by function. Python floats are
  modelled as (finite) real numbers: NaN, infinities and rounding error of the binary
  representation are outside the model. The two scikit-learn objects the detector
  holds are external to the repository: the fitted isolation forest is represented by
  the two functions the detector calls on it, the standard scaler by the statistics
  it computes. The file system, the process' string hash, the settings and pydantic's
  \<^verbatim>\<open>str\<close> of a transaction are read from an environment record. The wall-clock
  \<^verbatim>\<open>timestamp\<close> field of a response is not modelled.
\<close>

subsection \<open>Exceptions\<close>

datatype py_error =
    ValueError string
  | IndexError string
  | AttributeError string
  | NotFittedError string
  | Exception string

subsection \<open>app/api/schemas.py\<close>

record TransactionBase =
  amount :: real
  merchant :: "string option"
  category :: "string option"
  customer_id :: "string option"

type_synonym TransactionCreate = TransactionBase

record TransactionResponse = TransactionBase +
  id_field :: int
  is_fraud :: bool
  fraud_score :: real

subsection \<open>numpy and the builtins the detector uses\<close>

type_synonym matrix = "real list list"

text \<open>Indexing an array or list with a non-negative index raises beyond the end.\<close>

definition getitem :: "'a list \<Rightarrow> nat \<Rightarrow> py_error + 'a" where
  "getitem xs i =
     (if i < length xs then Inr (xs ! i) else Inl (IndexError ''index out of bounds''))"

text \<open>
  \<^verbatim>\<open>np.vstack\<close> of a list of two-dimensional arrays: the rows of all of them, in order.
  It raises on an empty list and on arrays whose widths differ.
\<close>

definition vstack :: "matrix list \<Rightarrow> py_error + matrix" where
  "vstack arrays =
     (case arrays of
        [] \<Rightarrow> Inl (ValueError ''need at least one array to concatenate'')
      | a # rest \<Rightarrow>
          (if list_all (\<lambda>b. list_all (\<lambda>row. length row = length (hd a)) b) arrays
           then Inr (concat arrays)
           else Inl (ValueError ''all the input array dimensions must match exactly'')))"

text \<open>
  \<^verbatim>\<open>round(x, n)\<close> on an exact value: to the nearest multiple of \<open>10\<^sup>-\<^sup>n\<close>, a tie to
  the even one.
\<close>

definition py_round :: "real \<Rightarrow> nat \<Rightarrow> real" where
  "py_round x n =
     (let y = x * 10 ^ n; f = \<lfloor>y\<rfloor>; d = y - of_int f
      in (if d < 1 / 2 then of_int f
          else if 1 / 2 < d then of_int (f + 1)
          else if even f then of_int f else of_int (f + 1)) / 10 ^ n)"

text \<open>Truth value of an \<^verbatim>\<open>Optional[str]\<close>: \<^verbatim>\<open>None\<close> and the empty string are false.\<close>

definition truthy :: "string option \<Rightarrow> bool" where
  "truthy field = (case field of None \<Rightarrow> False | Some s \<Rightarrow> s \<noteq> [])"

text \<open>\<^verbatim>\<open>str\<close> of an \<^verbatim>\<open>Optional[str]\<close>.\<close>

definition str_of :: "string option \<Rightarrow> string" where
  "str_of field = (case field of None \<Rightarrow> ''None'' | Some s \<Rightarrow> s)"

text \<open>\<^verbatim>\<open>a or b\<close> for an optional string \<^verbatim>\<open>a\<close>: \<^verbatim>\<open>a\<close> when it is true, else \<^verbatim>\<open>b\<close>.\<close>

definition py_or :: "string option \<Rightarrow> string \<Rightarrow> string" where
  "py_or a b = (case a of None \<Rightarrow> b | Some s \<Rightarrow> if s = [] then b else s)"

subsection \<open>sklearn.preprocessing.StandardScaler\<close>

record scaler_fit =
  fit_mean :: "real list"
  fit_var :: "real list"
  fit_scale :: "real list"
  n_samples_seen :: nat

text \<open>A scaler with the default parameters; \<open>None\<close> until it has been fitted.\<close>

datatype StandardScaler = StandardScaler (fitted: "scaler_fit option")

definition column :: "matrix \<Rightarrow> nat \<Rightarrow> real list" where
  "column X j = map (\<lambda>row. row ! j) X"

definition mean :: "real list \<Rightarrow> real" where
  "mean xs = sum_list xs / real (length xs)"

definition variance :: "real list \<Rightarrow> real" where
  "variance xs = sum_list (map (\<lambda>x. (x - mean xs) ^ 2) xs) / real (length xs)"

text \<open>A column of zero spread is left unscaled (divided by 1).\<close>

definition handle_zeros_in_scale :: "real \<Rightarrow> real" where
  "handle_zeros_in_scale s = (if s = 0 then 1 else s)"

definition fit :: "matrix \<Rightarrow> scaler_fit" where
  "fit X =
     (let d = length (hd X);
          vars = map (\<lambda>j. variance (column X j)) [0..<d]
      in \<lparr>fit_mean = map (\<lambda>j. mean (column X j)) [0..<d],
          fit_var = vars,
          fit_scale = map (\<lambda>v. handle_zeros_in_scale (sqrt v)) vars,
          n_samples_seen = length X\<rparr>)"

definition transform :: "scaler_fit \<Rightarrow> matrix \<Rightarrow> matrix" where
  "transform f X =
     map (\<lambda>row. map (\<lambda>(x, m, s). (x - m) / s) (zip row (zip (fit_mean f) (fit_scale f)))) X"

text \<open>
  \<^verbatim>\<open>fit_transform\<close> overwrites the statistics of the scaler with those of the given
  matrix and returns the matrix rescaled by them. It rejects a matrix without rows.
\<close>

definition fit_transform :: "StandardScaler \<Rightarrow> matrix \<Rightarrow> py_error + (StandardScaler \<times> matrix)" where
  "fit_transform sc X =
     (if X = [] then Inl (ValueError ''Found array with 0 sample(s)'')
      else Inr (StandardScaler (Some (fit X)), transform (fit X) X))"

subsection \<open>sklearn.ensemble.IsolationForest\<close>

text \<open>
  What fitting leaves behind, seen through the two methods the detector calls: the
  labels (\<open>-1\<close> anomalous, \<open>1\<close> normal) and the raw scores of a matrix of samples. Both
  may raise (for instance on a matrix of the wrong width).
\<close>

record forest_fit =
  predict_fn :: "matrix \<Rightarrow> py_error + int list"
  score_samples_fn :: "matrix \<Rightarrow> py_error + real list"

datatype IsolationForest =
  IsolationForest (contamination: real) (random_state: int) (n_estimators: nat)
    (estimators: "forest_fit option")

definition predict :: "IsolationForest \<Rightarrow> matrix \<Rightarrow> py_error + int list" where
  "predict m X =
     (case estimators m of
        None \<Rightarrow> Inl (NotFittedError ''This IsolationForest instance is not fitted yet'')
      | Some f \<Rightarrow> predict_fn f X)"

definition score_samples :: "IsolationForest \<Rightarrow> matrix \<Rightarrow> py_error + real list" where
  "score_samples m X =
     (case estimators m of
        None \<Rightarrow> Inl (NotFittedError ''This IsolationForest instance is not fitted yet'')
      | Some f \<Rightarrow> score_samples_fn f X)"

subsection \<open>The environment: settings, file system, hashing\<close>

text \<open>
  What \<^verbatim>\<open>joblib.load\<close> can return: a dict, of which the detector reads the entries
  \<^verbatim>\<open>model\<close> and \<^verbatim>\<open>scaler\<close> with \<^verbatim>\<open>dict.get\<close> (\<open>None\<close> for a missing key), or any other
  object, which the detector takes for the model itself (\<open>None\<close> for the object
  \<^verbatim>\<open>None\<close>).
\<close>

datatype artifact =
    Bundle "IsolationForest option" "StandardScaler option"
  | Legacy "IsolationForest option"

record env =
  MODEL_PATH :: string
  FRAUD_THRESHOLD :: real
  path_exists :: "string \<Rightarrow> bool"
  joblib_load :: "string \<Rightarrow> py_error + artifact"
  py_hash :: "string \<Rightarrow> int"
  str_transaction :: "TransactionCreate \<Rightarrow> string"

subsection \<open>AnomalyDetector\<close>

record AnomalyDetector =
  model :: "IsolationForest option"
  scaler :: "StandardScaler option"
  model_loaded :: bool

definition new_detector :: AnomalyDetector where
  "new_detector = \<lparr>model = None, scaler = None, model_loaded = False\<rparr>"

definition initialize_model :: "AnomalyDetector \<Rightarrow> AnomalyDetector" where
  "initialize_model self =
     self\<lparr>model := Some (IsolationForest 0.1 42 100 None),
          scaler := Some (StandardScaler None)\<rparr>"

text \<open>The body of the \<^verbatim>\<open>try\<close> block of \<^verbatim>\<open>load_model\<close> (lines 45 to 65).\<close>

definition load_model_try :: "env \<Rightarrow> AnomalyDetector \<Rightarrow> string \<Rightarrow> py_error + AnomalyDetector" where
  "load_model_try e self model_path =
     (if path_exists e model_path then
        (case joblib_load e model_path of
           Inl err \<Rightarrow> Inl err
         | Inr model_data \<Rightarrow>
             (case model_data of
                Bundle m s \<Rightarrow> Inr (self\<lparr>model := m, scaler := s, model_loaded := True\<rparr>)
              | Legacy m \<Rightarrow>
                  Inr (self\<lparr>model := m, scaler := Some (StandardScaler None),
                            model_loaded := True\<rparr>)))
      else Inr ((initialize_model self)\<lparr>model_loaded := True\<rparr>))"

text \<open>
  \<^verbatim>\<open>load_model\<close>: the path defaults to the configured one (also for an empty string,
  which is false in Python); \<^verbatim>\<open>except Exception\<close> replaces every failure of the body
  by a fresh model. The result is a sum so that a raise would show as \<open>Inl\<close>.
\<close>

definition load_model :: "env \<Rightarrow> AnomalyDetector \<Rightarrow> string option \<Rightarrow> py_error + AnomalyDetector" where
  "load_model e self model_path =
     (let model_path = py_or model_path (MODEL_PATH e)
      in case load_model_try e self model_path of
           Inr self' \<Rightarrow> Inr self'
         | Inl err \<Rightarrow> Inr ((initialize_model self)\<lparr>model_loaded := True\<rparr>))"

definition is_model_loaded :: "AnomalyDetector \<Rightarrow> bool" where
  "is_model_loaded self = (model_loaded self \<and> model self \<noteq> None)"

definition extract_features :: "env \<Rightarrow> TransactionCreate \<Rightarrow> matrix" where
  "extract_features e transaction =
     (let merchant_hash =
            (if truthy (merchant transaction)
             then py_hash e (str_of (merchant transaction)) mod 1000 else 0);
          category_hash =
            (if truthy (category transaction)
             then py_hash e (str_of (category transaction)) mod 100 else 0);
          customer_hash =
            (if truthy (customer_id transaction)
             then py_hash e (str_of (customer_id transaction)) mod 1000 else 0)
      in [[amount transaction, of_int merchant_hash, of_int category_hash,
           of_int customer_hash]])"

text \<open>Lines 111 and 112, and 153 and 154: load on first use.\<close>

definition ensure_loaded :: "env \<Rightarrow> AnomalyDetector \<Rightarrow> py_error + AnomalyDetector" where
  "ensure_loaded e self =
     (if \<not> model_loaded self \<or> model self = None then load_model e self None
      else Inr self)"

text \<open>
  Lines 117 to 121, and 160 to 164: the scaler, when there is one, is fitted on the
  matrix being scored. The refitted scaler stays in the detector.
\<close>

definition scale_features :: "AnomalyDetector \<Rightarrow> matrix \<Rightarrow> py_error + (AnomalyDetector \<times> matrix)" where
  "scale_features self features =
     (case scaler self of
        Some sc \<Rightarrow>
          (case fit_transform sc features of
             Inl err \<Rightarrow> Inl err
           | Inr (sc', features_scaled) \<Rightarrow> Inr (self\<lparr>scaler := Some sc'\<rparr>, features_scaled))
      | None \<Rightarrow> Inr (self, features))"

text \<open>Calling a method of \<^verbatim>\<open>self._model\<close> when it is \<^verbatim>\<open>None\<close> raises.\<close>

definition the_model :: "AnomalyDetector \<Rightarrow> py_error + IsolationForest" where
  "the_model self =
     (case model self of
        None \<Rightarrow> Inl (AttributeError ''NoneType object has no attribute predict'')
      | Some m \<Rightarrow> Inr m)"

definition bind :: "py_error + 'a \<Rightarrow> ('a \<Rightarrow> py_error + 'b) \<Rightarrow> py_error + 'b" where
  "bind x f = (case x of Inl err \<Rightarrow> Inl err | Inr v \<Rightarrow> f v)"

text \<open>
  \<^verbatim>\<open>detect\<close>, lines 111 to 127: what the model says about the transaction. The
  detector changed by loading and by refitting the scaler is returned also when a
  later step raises.
\<close>

definition detect_outputs ::
  "env \<Rightarrow> AnomalyDetector \<Rightarrow> TransactionCreate \<Rightarrow> (py_error + (int \<times> real)) \<times> AnomalyDetector" where
  "detect_outputs e self transaction =
     (case ensure_loaded e self of
        Inl err \<Rightarrow> (Inl err, self)
      | Inr self1 \<Rightarrow>
          (let features = extract_features e transaction
           in case scale_features self1 features of
                Inl err \<Rightarrow> (Inl err, self1)
              | Inr (self2, features_scaled) \<Rightarrow>
                  (bind (the_model self2) (\<lambda>m.
                   bind (predict m features_scaled) (\<lambda>predictions.
                   bind (getitem predictions 0) (\<lambda>prediction.
                   bind (score_samples m features_scaled) (\<lambda>scores.
                   bind (getitem scores 0) (\<lambda>anomaly_score.
                   Inr (prediction, anomaly_score)))))), self2)))"

text \<open>\<^verbatim>\<open>detect\<close>, lines 129 to 147.\<close>

definition detect ::
  "env \<Rightarrow> AnomalyDetector \<Rightarrow> TransactionCreate \<Rightarrow> (py_error + TransactionResponse) \<times> AnomalyDetector" where
  "detect e self transaction =
     (case detect_outputs e self transaction of
        (Inl err, self') \<Rightarrow> (Inl err, self')
      | (Inr (prediction, anomaly_score), self') \<Rightarrow>
          (let fraud_score = 1 - ((anomaly_score - (- 0.5)) / (0.5 - (- 0.5)));
               fraud_score = max 0.0 (min 1.0 fraud_score);
               is_fraud = (prediction = - 1 \<or> fraud_score \<ge> FRAUD_THRESHOLD e)
           in (Inr \<lparr>amount = amount transaction,
                     merchant = merchant transaction,
                     category = category transaction,
                     customer_id = customer_id transaction,
                     id_field = py_hash e (str_transaction e transaction) mod 1000000,
                     is_fraud = is_fraud,
                     fraud_score = py_round fraud_score 4\<rparr>, self')))"

text \<open>\<^verbatim>\<open>detect_batch\<close>, lines 153 to 168.\<close>

definition detect_batch_outputs ::
  "env \<Rightarrow> AnomalyDetector \<Rightarrow> TransactionCreate list
     \<Rightarrow> (py_error + (int list \<times> real list)) \<times> AnomalyDetector" where
  "detect_batch_outputs e self transactions =
     (case ensure_loaded e self of
        Inl err \<Rightarrow> (Inl err, self)
      | Inr self1 \<Rightarrow>
          (let features_list = map (extract_features e) transactions
           in case vstack features_list of
                Inl err \<Rightarrow> (Inl err, self1)
              | Inr features_array \<Rightarrow>
                  (case scale_features self1 features_array of
                     Inl err \<Rightarrow> (Inl err, self1)
                   | Inr (self2, features_scaled) \<Rightarrow>
                       (bind (the_model self2) (\<lambda>m.
                        bind (predict m features_scaled) (\<lambda>predictions.
                        bind (score_samples m features_scaled) (\<lambda>anomaly_scores.
                        Inr (predictions, anomaly_scores)))), self2))))"

text \<open>
  The loop of lines 171 to 188 over \<^verbatim>\<open>enumerate(transactions)\<close>, with the list
  \<^verbatim>\<open>results\<close> it appends to.
\<close>

fun detect_batch_loop ::
  "env \<Rightarrow> int list \<Rightarrow> real list \<Rightarrow> (nat \<times> TransactionCreate) list
     \<Rightarrow> TransactionResponse list \<Rightarrow> py_error + TransactionResponse list" where
  "detect_batch_loop e predictions anomaly_scores [] results = Inr results"
| "detect_batch_loop e predictions anomaly_scores ((i, transaction) # rest) results =
     (case getitem anomaly_scores i of
        Inl err \<Rightarrow> Inl err
      | Inr anomaly_score \<Rightarrow>
          (let fraud_score = 1 - ((anomaly_score - (- 0.5)) / (0.5 - (- 0.5)));
               fraud_score = max 0.0 (min 1.0 fraud_score)
           in case getitem predictions i of
                Inl err \<Rightarrow> Inl err
              | Inr prediction \<Rightarrow>
                  (let is_fraud = (prediction = - 1 \<or> fraud_score \<ge> FRAUD_THRESHOLD e)
                   in detect_batch_loop e predictions anomaly_scores rest
                        (results @
                         [\<lparr>amount = amount transaction,
                           merchant = merchant transaction,
                           category = category transaction,
                           customer_id = customer_id transaction,
                           id_field = py_hash e (str_transaction e transaction) mod 1000000,
                           is_fraud = is_fraud,
                           fraud_score = py_round fraud_score 4\<rparr>]))))"

definition detect_batch ::
  "env \<Rightarrow> AnomalyDetector \<Rightarrow> TransactionCreate list
     \<Rightarrow> (py_error + TransactionResponse list) \<times> AnomalyDetector" where
  "detect_batch e self transactions =
     (case detect_batch_outputs e self transactions of
        (Inl err, self') \<Rightarrow> (Inl err, self')
      | (Inr (predictions, anomaly_scores), self') \<Rightarrow>
          (detect_batch_loop e predictions anomaly_scores
             (enumerate 0 transactions) [], self'))"

subsection \<open>The spec's formulas\<close>

text \<open>
  The score normalizer as the specification words it (section 4.4), to be compared
  with the expression lines 131, 132, 174 and 175 compute.
\<close>

definition spec_normalize :: "real \<Rightarrow> real" where
  "spec_normalize raw_score = max 0 (min 1 (1 - (raw_score + 0.5) / 1.0))"

text \<open>
  An error that identifies the offending batch, read as: its message names the batch
  or its transactions. \<open>mentions w m\<close> is Python's \<^verbatim>\<open>w in m\<close> on strings.
\<close>

fun message :: "py_error \<Rightarrow> string" where
  "message (ValueError m) = m"
| "message (IndexError m) = m"
| "message (AttributeError m) = m"
| "message (NotFittedError m) = m"
| "message (Exception m) = m"

fun starts_with :: "string \<Rightarrow> string \<Rightarrow> bool" where
  "starts_with [] m = True"
| "starts_with (c # w) [] = False"
| "starts_with (c # w) (d # m) = (c = d \<and> starts_with w m)"

fun mentions :: "string \<Rightarrow> string \<Rightarrow> bool" where
  "mentions w [] = (w = [])"
| "mentions w (d # m) = (starts_with w (d # m) \<or> mentions w m)"

definition spec_identifies_batch :: "py_error \<Rightarrow> bool" where
  "spec_identifies_batch err =
     (mentions ''batch'' (message err) \<or> mentions ''transaction'' (message err))"

subsection \<open>The response both paths build\<close>

text \<open>
  What lines 129 to 147 and lines 173 to 188 make of a transaction, the label and
  the raw score of its row; the helper lemmas below are stated with it.
\<close>

definition response_for :: "env \<Rightarrow> TransactionCreate \<Rightarrow> int \<Rightarrow> real \<Rightarrow> TransactionResponse" where
  "response_for e transaction prediction anomaly_score =
     (let fraud_score = 1 - ((anomaly_score - (- 0.5)) / (0.5 - (- 0.5)));
          fraud_score = max 0.0 (min 1.0 fraud_score);
          is_fraud = (prediction = - 1 \<or> fraud_score \<ge> FRAUD_THRESHOLD e)
      in \<lparr>amount = amount transaction,
          merchant = merchant transaction,
          category = category transaction,
          customer_id = customer_id transaction,
          id_field = py_hash e (str_transaction e transaction) mod 1000000,
          is_fraud = is_fraud,
          fraud_score = py_round fraud_score 4\<rparr>)"

subsection \<open>A concrete detector to evaluate the functions on\<close>

text \<open>
  A fitted forest that scores a row by its first (scaled) feature and labels it
  anomalous below an offset, an environment with three artifacts on disk (a bundle, a
  dict without the entry \<^verbatim>\<open>model\<close>, a file that does not unpickle), and transactions
  without the optional fields.
\<close>

definition example_forest :: IsolationForest where
  "example_forest =
     IsolationForest 0.1 42 100
       (Some \<lparr>predict_fn =
                (\<lambda>X. Inr (map (\<lambda>row. if hd row * 13 / 20 - 1 / 10 < - 3 / 10
                                      then - 1 else 1) X)),
              score_samples_fn = (\<lambda>X. Inr (map (\<lambda>row. hd row * 13 / 20 - 1 / 10) X))\<rparr>)"

text \<open>A fitted forest that gives every row the same label and the same raw score.\<close>

definition constant_forest :: "int \<Rightarrow> real \<Rightarrow> IsolationForest" where
  "constant_forest label raw_score =
     IsolationForest 0.1 42 100
       (Some \<lparr>predict_fn = (\<lambda>X. Inr (map (\<lambda>row. label) X)),
              score_samples_fn = (\<lambda>X. Inr (map (\<lambda>row. raw_score) X))\<rparr>)"

definition constant_detector :: "int \<Rightarrow> real \<Rightarrow> AnomalyDetector" where
  "constant_detector label raw_score =
     \<lparr>model = Some (constant_forest label raw_score), scaler = Some (StandardScaler None),
      model_loaded = True\<rparr>"

definition example_env :: env where
  "example_env =
     \<lparr>MODEL_PATH = ''model.joblib'',
      FRAUD_THRESHOLD = 0.5,
      path_exists = (\<lambda>p. p \<in> {''bundle.joblib'', ''nomodel.joblib'', ''corrupt.joblib''}),
      joblib_load =
        (\<lambda>p. if p = ''bundle.joblib''
               then Inr (Bundle (Some example_forest) (Some (StandardScaler None)))
             else if p = ''nomodel.joblib''
               then Inr (Bundle None (Some (StandardScaler None)))
             else Inl (Exception ''could not unpickle'')),
      py_hash = (\<lambda>s. 1234 - 5000 * int (length s)),
      str_transaction =
        (\<lambda>t. case merchant t of None \<Rightarrow> ''merchant=None'' | Some s \<Rightarrow> ''merchant='' @ s)\<rparr>"

definition example_detector :: AnomalyDetector where
  "example_detector =
     \<lparr>model = Some example_forest, scaler = Some (StandardScaler None), model_loaded = True\<rparr>"

definition example_transaction :: "real \<Rightarrow> TransactionCreate" where
  "example_transaction a = \<lparr>amount = a, merchant = None, category = None, customer_id = None\<rparr>"

section \<open>Helper lemmas\<close>

lemmas example_defs =
  detect_def detect_outputs_def detect_batch_def detect_batch_outputs_def ensure_loaded_def
  extract_features_def example_transaction_def truthy_def str_of_def py_or_def vstack_def
  bind_def the_model_def predict_def score_samples_def example_forest_def example_env_def getitem_def py_round_def
  scale_features_def example_detector_def fit_transform_def fit_def transform_def column_def
  mean_def variance_def handle_zeros_in_scale_def Let_def enumerate_eq_zip

subsection \<open>Rounding and normalization\<close>

lemma py_round_unit:
  assumes "0 \<le> x" "x \<le> 1"
  shows "0 \<le> py_round x 4 \<and> py_round x 4 \<le> 1"
proof -
  define y where "y = x * 10 ^ 4"
  have y: "0 \<le> y" "y \<le> 10000" using assms by (simp_all add: y_def)
  have f0: "0 \<le> \<lfloor>y\<rfloor>" using y by simp
  have f1: "\<lfloor>y\<rfloor> \<le> 10000" using y by (simp add: floor_le_iff)
  have top: "\<lfloor>y\<rfloor> = 10000 \<Longrightarrow> y - of_int \<lfloor>y\<rfloor> = 0"
  proof -
    assume h: "\<lfloor>y\<rfloor> = 10000"
    have "of_int \<lfloor>y\<rfloor> \<le> y" by (rule of_int_floor_le)
    with h have "10000 \<le> y" by simp
    with y h show ?thesis by simp
  qed
  have up: "\<lfloor>y\<rfloor> + 1 \<le> 10000" if "\<not> (y - of_int \<lfloor>y\<rfloor> < 1 / 2)"
  proof (cases "\<lfloor>y\<rfloor> = 10000")
    case True
    from top[OF True] that show ?thesis by linarith
  next
    case False
    with f1 show ?thesis by linarith
  qed
  have r0: "(0::real) \<le> of_int \<lfloor>y\<rfloor>" using f0 by simp
  have r1: "(of_int \<lfloor>y\<rfloor> :: real) \<le> 10000" using f1 by linarith
  have r2: "\<not> (y - of_int \<lfloor>y\<rfloor> < 1 / 2) \<Longrightarrow> (of_int (\<lfloor>y\<rfloor> + 1) :: real) \<le> 10000"
    using up by linarith
  have r3: "(0::real) \<le> of_int (\<lfloor>y\<rfloor> + 1)" using f0 by linarith
  show ?thesis
    unfolding py_round_def Let_def y_def[symmetric]
    using r0 r1 r2 r3 by (auto simp: divide_le_eq_1)
qed

lemma py_round_0: "py_round 0 4 = 0"
  by (simp add: py_round_def)

lemma py_round_1: "py_round 1 4 = 1"
  by (simp add: py_round_def)

lemma source_normalize:
  "max 0.0 (min 1.0 (1 - ((a - (- 0.5)) / (0.5 - (- 0.5))))) = spec_normalize (a::real)"
  by (simp add: spec_normalize_def)

lemma spec_normalize_unit: "0 \<le> spec_normalize a \<and> spec_normalize a \<le> 1"
  by (simp add: spec_normalize_def)

lemma spec_normalize_low: "a \<le> - 0.5 \<Longrightarrow> spec_normalize a = 1"
  by (simp add: spec_normalize_def)

lemma spec_normalize_high: "0.5 \<le> a \<Longrightarrow> spec_normalize a = 0"
  by (simp add: spec_normalize_def)

lemma response_for_fields:
  "amount (response_for e t p a) = amount t"
  "merchant (response_for e t p a) = merchant t"
  "category (response_for e t p a) = category t"
  "customer_id (response_for e t p a) = customer_id t"
  "id_field (response_for e t p a) = py_hash e (str_transaction e t) mod 1000000"
  "is_fraud (response_for e t p a) = (p = - 1 \<or> FRAUD_THRESHOLD e \<le> spec_normalize a)"
  "fraud_score (response_for e t p a) = py_round (spec_normalize a) 4"
  by (simp_all add: response_for_def spec_normalize_def Let_def)

subsection \<open>The shape of the two entry points\<close>

lemma detect_response:
  "detect e self t =
     (case detect_outputs e self t of
        (Inl err, self') \<Rightarrow> (Inl err, self')
      | (Inr (p, a), self') \<Rightarrow> (Inr (response_for e t p a), self'))"
  by (simp add: detect_def response_for_def Let_def split: prod.splits sum.splits)

lemma detect_Inr:
  "detect e self t = (Inr r, self') \<longleftrightarrow>
     (\<exists>p a. detect_outputs e self t = (Inr (p, a), self') \<and> r = response_for e t p a)"
  by (auto simp: detect_response split: prod.splits sum.splits)

lemma loop_result:
  "detect_batch_loop e P A (enumerate k ts) acc =
     (if ts = [] \<or> (k + length ts \<le> length A \<and> k + length ts \<le> length P)
      then Inr (acc @ map (\<lambda>(i, t). response_for e t (P ! i) (A ! i)) (enumerate k ts))
      else Inl (IndexError ''index out of bounds''))"
proof (induction ts arbitrary: k acc)
  case Nil
  show ?case by simp
next
  case (Cons t ts)
  show ?case
  proof (cases "k < length A \<and> k < length P")
    case True
    then show ?thesis
      using Cons.IH [of "Suc k"]
      by (cases "ts = []") (auto simp: getitem_def response_for_def Let_def)
  next
    case False
    then show ?thesis
      by (auto simp: getitem_def)
  qed
qed

lemma detect_batch_result:
  "detect_batch e self ts =
     (case detect_batch_outputs e self ts of
        (Inl err, self') \<Rightarrow> (Inl err, self')
      | (Inr (P, A), self') \<Rightarrow>
          (if ts = [] \<or> (length ts \<le> length A \<and> length ts \<le> length P)
           then Inr (map (\<lambda>(i, t). response_for e t (P ! i) (A ! i)) (enumerate 0 ts))
           else Inl (IndexError ''index out of bounds''), self'))"
  by (simp add: detect_batch_def loop_result split: prod.splits sum.splits)

lemma load_model_Inr: "\<exists>self'. load_model e self p = Inr self'"
  by (simp add: load_model_def Let_def split: sum.splits)

lemma ensure_loaded_Inr: "\<exists>self'. ensure_loaded e self = Inr self'"
  using load_model_Inr [of e self None] by (simp add: ensure_loaded_def)

lemma vstack_single: "vstack [extract_features e t] = Inr (extract_features e t)"
  by (simp add: vstack_def extract_features_def Let_def)

lemma vstack_features:
  "ts \<noteq> [] \<Longrightarrow>
     vstack (map (extract_features e) ts) = Inr (concat (map (extract_features e) ts))"
  by (cases ts) (auto simp: vstack_def extract_features_def Let_def list_all_iff)

lemma map_enumerate_nth:
  "map (\<lambda>(i, t). f i t) (enumerate 0 ts) = map (\<lambda>i. f i (ts ! i)) [0..<length ts]"
  by (rule nth_equalityI) (simp_all add: nth_enumerate_eq)

lemma detect_batch_Inr:
  "detect_batch e self ts = (Inr rs, self') \<longleftrightarrow>
     (\<exists>P A. detect_batch_outputs e self ts = (Inr (P, A), self') \<and>
        length ts \<le> length A \<and> length ts \<le> length P \<and>
        rs = map (\<lambda>i. response_for e (ts ! i) (P ! i) (A ! i)) [0..<length ts])"
  by (auto simp: detect_batch_result map_enumerate_nth split: prod.splits sum.splits)

lemma detect_batch_outputs_empty:
  "\<exists>self'. detect_batch_outputs e self [] =
     (Inl (ValueError ''need at least one array to concatenate''), self')"
  using ensure_loaded_Inr [of e self]
  by (auto simp: detect_batch_outputs_def vstack_def)

lemma extract_features_single: "extract_features e t = [hd (extract_features e t)]"
  by (simp add: extract_features_def Let_def)

lemma concat_features:
  "concat (map (extract_features e) ts) = map (\<lambda>t. hd (extract_features e t)) ts"
proof (induction ts)
  case Nil
  show ?case by simp
next
  case (Cons t ts)
  have "extract_features e t @ concat (map (extract_features e) ts)
        = [hd (extract_features e t)] @ concat (map (extract_features e) ts)"
    using extract_features_single [of e t] by simp
  with Cons show ?case by simp
qed

lemma detect_batch_outputs_Inr:
  "detect_batch_outputs e self ts = (Inr (P, A), self') \<longleftrightarrow>
     (\<exists>self1 X m. ensure_loaded e self = Inr self1 \<and> ts \<noteq> [] \<and>
        scale_features self1 (map (\<lambda>t. hd (extract_features e t)) ts) = Inr (self', X) \<and>
        model self' = Some m \<and> predict m X = Inr P \<and> score_samples m X = Inr A)"
proof (cases "ts = []")
  case True
  then show ?thesis
    using detect_batch_outputs_empty [of e self] by auto
next
  case False
  then show ?thesis
    by (auto simp: detect_batch_outputs_def vstack_features concat_features Let_def bind_def
        the_model_def split: sum.splits option.splits prod.splits)
qed

lemma detect_outputs_Inr:
  "detect_outputs e self t = (Inr (p, a), self') \<longleftrightarrow>
     (\<exists>self1 X m P A. ensure_loaded e self = Inr self1 \<and>
        scale_features self1 (extract_features e t) = Inr (self', X) \<and>
        model self' = Some m \<and> predict m X = Inr P \<and> score_samples m X = Inr A \<and>
        P \<noteq> [] \<and> A \<noteq> [] \<and> p = P ! 0 \<and> a = A ! 0)"
  by (auto simp: detect_outputs_def Let_def bind_def the_model_def getitem_def
      split: sum.splits option.splits prod.splits if_splits)

lemma scale_features_rows:
  assumes "scale_features self1 F = Inr (self', X)"
  shows "length X = length F"
    and "i < length F \<Longrightarrow> X ! i =
      (case scaler self1 of
         None \<Rightarrow> F ! i
       | Some sc \<Rightarrow> map (\<lambda>(x, m, s). (x - m) / s)
                     (zip (F ! i) (zip (fit_mean (fit F)) (fit_scale (fit F)))))"
  using assms
  by (auto simp: scale_features_def fit_transform_def transform_def
      split: option.splits sum.splits if_splits)

lemma scale_features_model:
  "scale_features self1 F = Inr (self', X) \<Longrightarrow> model self' = model self1"
  by (auto simp: scale_features_def split: option.splits sum.splits prod.splits)

lemma scale_features_total:
  "F \<noteq> [] \<Longrightarrow> \<exists>self2 X. scale_features self1 F = Inr (self2, X)"
  by (simp add: scale_features_def fit_transform_def split: option.splits)

lemma features_of_single:
  "map (\<lambda>t. hd (extract_features e t)) [t] = extract_features e t"
  using extract_features_single [of e t] by simp

lemma detect_batch_single:
  "detect_batch e self [t] = (Inr rs, self') \<longleftrightarrow>
     (\<exists>r. rs = [r] \<and> detect e self t = (Inr r, self'))"
proof
  assume "detect_batch e self [t] = (Inr rs, self')"
  then obtain P A where out: "detect_batch_outputs e self [t] = (Inr (P, A), self')"
    and len: "length [t] \<le> length A" "length [t] \<le> length P"
    and rs: "rs = map (\<lambda>i. response_for e ([t] ! i) (P ! i) (A ! i)) [0..<length [t]]"
    unfolding detect_batch_Inr by blast
  from out obtain self1 X m where "ensure_loaded e self = Inr self1"
    "scale_features self1 (extract_features e t) = Inr (self', X)"
    "model self' = Some m" "predict m X = Inr P" "score_samples m X = Inr A"
    unfolding detect_batch_outputs_Inr features_of_single by blast
  moreover from len have "P \<noteq> []" "A \<noteq> []" by auto
  ultimately have "detect_outputs e self t = (Inr (P ! 0, A ! 0), self')"
    unfolding detect_outputs_Inr by blast
  then have "detect e self t = (Inr (response_for e t (P ! 0) (A ! 0)), self')"
    unfolding detect_Inr by blast
  moreover from rs have "rs = [response_for e t (P ! 0) (A ! 0)]" by simp
  ultimately show "\<exists>r. rs = [r] \<and> detect e self t = (Inr r, self')" by blast
next
  assume "\<exists>r. rs = [r] \<and> detect e self t = (Inr r, self')"
  then obtain r where rs: "rs = [r]" and "detect e self t = (Inr r, self')" by blast
  then obtain p a where "detect_outputs e self t = (Inr (p, a), self')"
    and r: "r = response_for e t p a"
    unfolding detect_Inr by blast
  then obtain self1 X m P A where "ensure_loaded e self = Inr self1"
    "scale_features self1 (extract_features e t) = Inr (self', X)"
    "model self' = Some m" "predict m X = Inr P" "score_samples m X = Inr A"
    and ne: "P \<noteq> []" "A \<noteq> []" and pa: "p = P ! 0" "a = A ! 0"
    unfolding detect_outputs_Inr by blast
  then have out: "detect_batch_outputs e self [t] = (Inr (P, A), self')"
    unfolding detect_batch_outputs_Inr features_of_single by blast
  from ne have len: "length [t] \<le> length A" "length [t] \<le> length P"
    by (simp_all add: Suc_le_eq)
  have "rs = map (\<lambda>i. response_for e ([t] ! i) (P ! i) (A ! i)) [0..<length [t]]"
    using rs r pa by simp
  with out len show "detect_batch e self [t] = (Inr rs, self')"
    unfolding detect_batch_Inr by blast
qed

lemma scale_single_row:
  assumes "scaler self1 = Some sc"
  shows "scale_features self1 (extract_features e t) =
     Inr (self1\<lparr>scaler := Some (StandardScaler (Some (fit (extract_features e t))))\<rparr>,
          [[0, 0, 0, 0]])"
  using assms
  by (simp add: scale_features_def fit_transform_def fit_def transform_def column_def mean_def
      variance_def handle_zeros_in_scale_def extract_features_def Let_def)

lemma detect_outputs_scaled_single:
  assumes "ensure_loaded e self = Inr self1" "scaler self1 = Some sc"
  shows "fst (detect_outputs e self t) =
     bind (the_model self1) (\<lambda>m.
     bind (predict m [[0, 0, 0, 0]]) (\<lambda>predictions.
     bind (getitem predictions 0) (\<lambda>prediction.
     bind (score_samples m [[0, 0, 0, 0]]) (\<lambda>scores.
     bind (getitem scores 0) (\<lambda>anomaly_score.
     Inr (prediction, anomaly_score))))))"
  using assms
  by (simp add: detect_outputs_def scale_single_row Let_def the_model_def)

lemma fst_detect:
  "fst (detect e self t) =
     map_sum id (\<lambda>(p, a). response_for e t p a) (fst (detect_outputs e self t))"
  by (simp add: detect_response split: prod.splits sum.splits)

subsection \<open>The amount column of a scaled batch\<close>

lemma feature_row:
  "\<exists>m c u. hd (extract_features e t) = [amount t, m, c, u]"
  by (simp add: extract_features_def Let_def)

lemma amount_column:
  "column (map (\<lambda>t. hd (extract_features e t)) ts) 0 = map amount ts"
  by (simp add: column_def extract_features_def Let_def)

lemma handle_zeros_in_scale_nonzero: "handle_zeros_in_scale s \<noteq> 0"
  by (simp add: handle_zeros_in_scale_def)

lemma fit_first_column:
  assumes "ts \<noteq> []"
  shows "\<exists>m1 m2 m3 s1 s2 s3.
     fit_mean (fit (map (\<lambda>t. hd (extract_features e t)) ts)) =
       [mean (map amount ts), m1, m2, m3] \<and>
     fit_scale (fit (map (\<lambda>t. hd (extract_features e t)) ts)) =
       [handle_zeros_in_scale (sqrt (variance (map amount ts))), s1, s2, s3]"
proof -
  let ?F = "map (\<lambda>t. hd (extract_features e t)) ts"
  from assms have "hd ?F = hd (extract_features e (hd ts))" by (simp add: hd_map)
  then have "length (hd ?F) = 4" by (simp add: extract_features_def Let_def)
  moreover have "[0..<4] = [0, 1, 2, 3]" by (simp add: upt_rec)
  ultimately show ?thesis
    by (simp add: fit_def Let_def amount_column)
qed

lemma batch_row_scaled_amount:
  assumes sc: "scaler self1 = Some sc" and i: "i < length ts"
    and X: "scale_features self1 (map (\<lambda>t. hd (extract_features e t)) ts) = Inr (self2, X)"
  shows "hd (X ! i) = (amount (ts ! i) - mean (map amount ts)) /
            handle_zeros_in_scale (sqrt (variance (map amount ts)))"
proof -
  let ?F = "map (\<lambda>t. hd (extract_features e t)) ts"
  from i have ne: "ts \<noteq> []" by auto
  obtain m1 m2 m3 s1 s2 s3 where
    fm: "fit_mean (fit ?F) = [mean (map amount ts), m1, m2, m3]" and
    fs: "fit_scale (fit ?F) =
       [handle_zeros_in_scale (sqrt (variance (map amount ts))), s1, s2, s3]"
    using fit_first_column [OF ne, of e] by blast
  obtain m c u where row: "hd (extract_features e (ts ! i)) = [amount (ts ! i), m, c, u]"
    using feature_row by blast
  from scale_features_rows(2) [OF X, of i] i sc
  have "X ! i = map (\<lambda>(x, m, s). (x - m) / s)
                     (zip (?F ! i) (zip (fit_mean (fit ?F)) (fit_scale (fit ?F))))"
    by simp
  with i row fm fs show ?thesis by simp
qed

subsection \<open>The threshold is only read by the verdict\<close>

lemma ensure_loaded_threshold:
  "ensure_loaded (e\<lparr>FRAUD_THRESHOLD := th\<rparr>) self = ensure_loaded e self"
  by (simp add: ensure_loaded_def load_model_def load_model_try_def Let_def)

lemma extract_features_threshold:
  "extract_features (e\<lparr>FRAUD_THRESHOLD := th\<rparr>) = extract_features e"
  by (rule ext) (simp add: extract_features_def)

lemma detect_outputs_threshold:
  "detect_outputs (e\<lparr>FRAUD_THRESHOLD := th\<rparr>) self t = detect_outputs e self t"
  by (simp add: detect_outputs_def ensure_loaded_threshold extract_features_threshold
      cong: sum.case_cong)

lemma detect_batch_outputs_threshold:
  "detect_batch_outputs (e\<lparr>FRAUD_THRESHOLD := th\<rparr>) self ts = detect_batch_outputs e self ts"
  by (simp add: detect_batch_outputs_def ensure_loaded_threshold extract_features_threshold
      cong: sum.case_cong)

subsection \<open>The example, evaluated\<close>

lemma example_detect_outputs:
  "detect_outputs example_env example_detector (example_transaction 1) =
     (Inr (1, - 1 / 10),
      example_detector\<lparr>scaler := Some (StandardScaler (Some
         \<lparr>fit_mean = [1, 0, 0, 0], fit_var = [0, 0, 0, 0], fit_scale = [1, 1, 1, 1],
          n_samples_seen = 1\<rparr>))\<rparr>)"
  by (simp add: example_defs)

lemma example_detect:
  "detect example_env example_detector (example_transaction 1) =
     (Inr \<lparr>amount = 1, merchant = None, category = None, customer_id = None,
            id_field = 936234, is_fraud = True, fraud_score = 3 / 5\<rparr>,
      example_detector\<lparr>scaler := Some (StandardScaler (Some
         \<lparr>fit_mean = [1, 0, 0, 0], fit_var = [0, 0, 0, 0], fit_scale = [1, 1, 1, 1],
          n_samples_seen = 1\<rparr>))\<rparr>)"
  by (simp add: example_defs)

lemma example_detect_batch_outputs:
  "detect_batch_outputs example_env example_detector
       [example_transaction 1, example_transaction 3] =
     (Inr ([- 1, 1], [- 3 / 4, 11 / 20]),
      example_detector\<lparr>scaler := Some (StandardScaler (Some
         \<lparr>fit_mean = [2, 0, 0, 0], fit_var = [1, 0, 0, 0], fit_scale = [1, 1, 1, 1],
          n_samples_seen = 2\<rparr>))\<rparr>)"
  by (simp add: example_defs)

lemma example_detect_batch:
  "detect_batch example_env example_detector [example_transaction 1, example_transaction 3] =
     (Inr [\<lparr>amount = 1, merchant = None, category = None, customer_id = None,
             id_field = 936234, is_fraud = True, fraud_score = 1\<rparr>,
           \<lparr>amount = 3, merchant = None, category = None, customer_id = None,
             id_field = 936234, is_fraud = False, fraud_score = 0\<rparr>],
      example_detector\<lparr>scaler := Some (StandardScaler (Some
         \<lparr>fit_mean = [2, 0, 0, 0], fit_var = [1, 0, 0, 0], fit_scale = [1, 1, 1, 1],
          n_samples_seen = 2\<rparr>))\<rparr>)"
  by (simp add: example_defs)

lemma detect_batch_nth:
  assumes "detect_batch e self ts = (Inr rs, self')"
  shows "\<exists>P A. detect_batch_outputs e self ts = (Inr (P, A), self') \<and>
           length rs = length ts \<and> length ts \<le> length P \<and> length ts \<le> length A \<and>
           (\<forall>i<length ts. rs ! i = response_for e (ts ! i) (P ! i) (A ! i))"
proof -
  from assms obtain P A where out: "detect_batch_outputs e self ts = (Inr (P, A), self')"
    and len: "length ts \<le> length A" "length ts \<le> length P"
    and rs: "rs = map (\<lambda>i. response_for e (ts ! i) (P ! i) (A ! i)) [0..<length ts]"
    unfolding detect_batch_Inr by blast
  from rs have "length rs = length ts"
    and "\<forall>i<length ts. rs ! i = response_for e (ts ! i) (P ! i) (A ! i)"
    by simp_all
  with out len show ?thesis by blast
qed

lemma example_scale_features:
  "scale_features example_detector
     (map (\<lambda>t. hd (extract_features example_env t))
        [example_transaction 1, example_transaction 3]) =
     Inr (example_detector\<lparr>scaler := Some (StandardScaler (Some
         \<lparr>fit_mean = [2, 0, 0, 0], fit_var = [1, 0, 0, 0], fit_scale = [1, 1, 1, 1],
          n_samples_seen = 2\<rparr>))\<rparr>, [[- 1, 0, 0, 0], [1, 0, 0, 0]])"
  by (simp add: example_defs)

lemma example_forest_outputs:
  "predict example_forest [[- 1, 0, 0, 0], [1, 0, 0, 0]] = Inr [- 1, 1]"
  "score_samples example_forest [[- 1, 0, 0, 0], [1, 0, 0, 0]] = Inr [- 3 / 4, 11 / 20]"
  by (simp_all add: example_defs)

lemma example_ensure_loaded: "ensure_loaded example_env example_detector = Inr example_detector"
  by (simp add: ensure_loaded_def example_detector_def)

lemma example_detect_other:
  "fst (detect example_env example_detector
     \<lparr>amount = 5000, merchant = Some ''acme'', category = None, customer_id = Some ''c1''\<rparr>) =
     Inr \<lparr>amount = 5000, merchant = Some ''acme'', category = None, customer_id = Some ''c1'',
            id_field = 936234, is_fraud = True, fraud_score = 3 / 5\<rparr>"
  by (simp add: example_defs)

lemma example_detect_threshold:
  "detect (example_env\<lparr>FRAUD_THRESHOLD := th\<rparr>) example_detector (example_transaction 1) =
     (Inr \<lparr>amount = 1, merchant = None, category = None, customer_id = None,
            id_field = 936234, is_fraud = (th \<le> 3 / 5), fraud_score = 3 / 5\<rparr>,
      example_detector\<lparr>scaler := Some (StandardScaler (Some
         \<lparr>fit_mean = [1, 0, 0, 0], fit_var = [0, 0, 0, 0], fit_scale = [1, 1, 1, 1],
          n_samples_seen = 1\<rparr>))\<rparr>)"
  by (simp add: example_defs)

lemma example_detect_batch_threshold:
  "detect_batch (example_env\<lparr>FRAUD_THRESHOLD := th\<rparr>) example_detector
       [example_transaction 1, example_transaction 3] =
     (Inr [\<lparr>amount = 1, merchant = None, category = None, customer_id = None,
             id_field = 936234, is_fraud = True, fraud_score = 1\<rparr>,
           \<lparr>amount = 3, merchant = None, category = None, customer_id = None,
             id_field = 936234, is_fraud = (th \<le> 0), fraud_score = 0\<rparr>],
      example_detector\<lparr>scaler := Some (StandardScaler (Some
         \<lparr>fit_mean = [2, 0, 0, 0], fit_var = [1, 0, 0, 0], fit_scale = [1, 1, 1, 1],
          n_samples_seen = 2\<rparr>))\<rparr>)"
  by (simp add: example_defs)

subsection \<open>When the two entry points return\<close>

lemma detect_returns:
  assumes "ensure_loaded e self = Inr self1"
    and "scale_features self1 (extract_features e t) = Inr (self2, X)"
    and "model self2 = Some m" and "predict m X = Inr P" and "score_samples m X = Inr A"
    and "P \<noteq> []" and "A \<noteq> []"
  shows "detect e self t = (Inr (response_for e t (P ! 0) (A ! 0)), self2)"
proof -
  from assms have "detect_outputs e self t = (Inr (P ! 0, A ! 0), self2)"
    unfolding detect_outputs_Inr by blast
  then show ?thesis unfolding detect_Inr by blast
qed

lemma detect_batch_returns:
  assumes "ts \<noteq> []" and "ensure_loaded e self = Inr self1"
    and "scale_features self1 (map (\<lambda>t. hd (extract_features e t)) ts) = Inr (self2, X)"
    and "model self2 = Some m" and "predict m X = Inr P" and "score_samples m X = Inr A"
    and "length ts \<le> length P" and "length ts \<le> length A"
  shows "detect_batch e self ts =
     (Inr (map (\<lambda>i. response_for e (ts ! i) (P ! i) (A ! i)) [0..<length ts]), self2)"
proof -
  from assms have "detect_batch_outputs e self ts = (Inr (P, A), self2)"
    unfolding detect_batch_outputs_Inr by blast
  with assms show ?thesis unfolding detect_batch_Inr by blast
qed

lemma detect_raises:
  "detect_outputs e self t = (Inl err, self') \<Longrightarrow> detect e self t = (Inl err, self')"
  by (simp add: detect_response)

lemma score_facts:
  "fraud_score (response_for e t p a) = py_round (spec_normalize a) 4 \<and>
   0 \<le> spec_normalize a \<and> spec_normalize a \<le> 1 \<and>
   0 \<le> fraud_score (response_for e t p a) \<and> fraud_score (response_for e t p a) \<le> 1 \<and>
   (a \<le> - 0.5 \<longrightarrow> fraud_score (response_for e t p a) = 1) \<and>
   (0.5 \<le> a \<longrightarrow> fraud_score (response_for e t p a) = 0)"
  using spec_normalize_unit [of a] py_round_unit [of "spec_normalize a"]
    spec_normalize_low [of a] spec_normalize_high [of a]
  by (simp add: response_for_fields py_round_0 py_round_1)

lemma verdict_facts:
  "(is_fraud (response_for e t p a) \<longleftrightarrow> p = - 1 \<or> FRAUD_THRESHOLD e \<le> spec_normalize a) \<and>
   (p = - 1 \<longrightarrow> is_fraud (response_for e t p a)) \<and>
   (FRAUD_THRESHOLD e \<le> spec_normalize a \<longrightarrow> is_fraud (response_for e t p a)) \<and>
   (p \<noteq> - 1 \<and> spec_normalize a < FRAUD_THRESHOLD e \<longrightarrow> \<not> is_fraud (response_for e t p a))"
  by (auto simp: response_for_fields)

subsection \<open>Detectors with a constant forest, evaluated\<close>

lemma constant_ensure_loaded:
  "ensure_loaded e (constant_detector l r) = Inr (constant_detector l r)"
  by (simp add: ensure_loaded_def constant_detector_def)

lemma constant_scale_features:
  "scale_features (constant_detector l r) (extract_features example_env (example_transaction a)) =
     Inr ((constant_detector l r)\<lparr>scaler := Some (StandardScaler (Some
            \<lparr>fit_mean = [a, 0, 0, 0], fit_var = [0, 0, 0, 0], fit_scale = [1, 1, 1, 1],
             n_samples_seen = 1\<rparr>))\<rparr>, [[0, 0, 0, 0]])"
  by (simp add: example_defs constant_detector_def)

lemma constant_model:
  "model ((constant_detector l r)\<lparr>scaler := sc\<rparr>) = Some (constant_forest l r)"
  by (simp add: constant_detector_def)

lemma constant_forest_outputs:
  "predict (constant_forest l r) [[0, 0, 0, 0]] = Inr [l]"
  "score_samples (constant_forest l r) [[0, 0, 0, 0]] = Inr [r]"
  by (simp_all add: predict_def score_samples_def constant_forest_def)

lemma constant_scale_features_batch:
  "scale_features (constant_detector l r)
     (map (\<lambda>t. hd (extract_features example_env t))
        [example_transaction 1, example_transaction 3]) =
     Inr ((constant_detector l r)\<lparr>scaler := Some (StandardScaler (Some
            \<lparr>fit_mean = [2, 0, 0, 0], fit_var = [1, 0, 0, 0], fit_scale = [1, 1, 1, 1],
             n_samples_seen = 2\<rparr>))\<rparr>, [[- 1, 0, 0, 0], [1, 0, 0, 0]])"
  by (simp add: example_defs constant_detector_def)

lemma constant_forest_outputs_batch:
  "predict (constant_forest l r) [[- 1, 0, 0, 0], [1, 0, 0, 0]] = Inr [l, l]"
  "score_samples (constant_forest l r) [[- 1, 0, 0, 0], [1, 0, 0, 0]] = Inr [r, r]"
  by (simp_all add: predict_def score_samples_def constant_forest_def)

lemma example_threshold: "FRAUD_THRESHOLD example_env = 1 / 2"
  by (simp add: example_env_def)

subsection \<open>Verdicts at two thresholds\<close>

lemma threshold_flips:
  "th1 \<le> th2 \<longrightarrow>
   (\<forall>r1 r2 s1 s2.
      detect (e\<lparr>FRAUD_THRESHOLD := th1\<rparr>) self t = (Inr r1, s1) \<and>
      detect (e\<lparr>FRAUD_THRESHOLD := th2\<rparr>) self t = (Inr r2, s2) \<longrightarrow>
      (\<exists>prediction raw_score.
         detect_outputs e self t = (Inr (prediction, raw_score), s1) \<and> s2 = s1 \<and>
         (is_fraud r2 \<longrightarrow> is_fraud r1) \<and>
         (is_fraud r1 \<and> \<not> is_fraud r2 \<longrightarrow>
            prediction \<noteq> - 1 \<and> th1 \<le> spec_normalize raw_score \<and>
            spec_normalize raw_score < th2) \<and>
         (prediction = - 1 \<longrightarrow> is_fraud r1 \<and> is_fraud r2)))
   \<and> (\<forall>rs1 rs2 s1 s2.
      detect_batch (e\<lparr>FRAUD_THRESHOLD := th1\<rparr>) self ts = (Inr rs1, s1) \<and>
      detect_batch (e\<lparr>FRAUD_THRESHOLD := th2\<rparr>) self ts = (Inr rs2, s2) \<longrightarrow>
      (\<exists>predictions raw_scores.
         detect_batch_outputs e self ts = (Inr (predictions, raw_scores), s1) \<and> s2 = s1 \<and>
         (\<forall>i<length ts.
            (is_fraud (rs2 ! i) \<longrightarrow> is_fraud (rs1 ! i)) \<and>
            (is_fraud (rs1 ! i) \<and> \<not> is_fraud (rs2 ! i) \<longrightarrow>
               predictions ! i \<noteq> - 1 \<and> th1 \<le> spec_normalize (raw_scores ! i) \<and>
               spec_normalize (raw_scores ! i) < th2) \<and>
            (predictions ! i = - 1 \<longrightarrow> is_fraud (rs1 ! i) \<and> is_fraud (rs2 ! i)))))"
proof (intro impI conjI allI, goal_cases)
  case (1 r1 r2 s1 s2)
  then obtain p1 a1 p2 a2 where
    o1: "detect_outputs e self t = (Inr (p1, a1), s1)"
    and r1: "r1 = response_for (e\<lparr>FRAUD_THRESHOLD := th1\<rparr>) t p1 a1"
    and o2: "detect_outputs e self t = (Inr (p2, a2), s2)"
    and r2: "r2 = response_for (e\<lparr>FRAUD_THRESHOLD := th2\<rparr>) t p2 a2"
    unfolding detect_Inr detect_outputs_threshold by blast
  from o1 o2 have same: "p2 = p1" "a2 = a1" "s2 = s1" by simp_all
  show ?case
  proof (intro exI conjI)
    show "detect_outputs e self t = (Inr (p1, a1), s1)" by (rule o1)
    show "s2 = s1" by (rule same)
  qed (use \<open>th1 \<le> th2\<close> r1 r2 same in \<open>auto simp: response_for_fields\<close>)
next
  case (2 rs1 rs2 s1 s2)
  then have b1: "detect_batch (e\<lparr>FRAUD_THRESHOLD := th1\<rparr>) self ts = (Inr rs1, s1)"
    and b2: "detect_batch (e\<lparr>FRAUD_THRESHOLD := th2\<rparr>) self ts = (Inr rs2, s2)"
    by simp_all
  from detect_batch_nth [OF b1] obtain P1 A1 where
    o1: "detect_batch_outputs e self ts = (Inr (P1, A1), s1)"
    and n1: "\<forall>i<length ts. rs1 ! i =
        response_for (e\<lparr>FRAUD_THRESHOLD := th1\<rparr>) (ts ! i) (P1 ! i) (A1 ! i)"
    unfolding detect_batch_outputs_threshold by blast
  from detect_batch_nth [OF b2] obtain P2 A2 where
    o2: "detect_batch_outputs e self ts = (Inr (P2, A2), s2)"
    and n2: "\<forall>i<length ts. rs2 ! i =
        response_for (e\<lparr>FRAUD_THRESHOLD := th2\<rparr>) (ts ! i) (P2 ! i) (A2 ! i)"
    unfolding detect_batch_outputs_threshold by blast
  from o1 o2 have same: "P2 = P1" "A2 = A1" "s2 = s1" by simp_all
  show ?case
  proof (intro exI conjI)
    show "detect_batch_outputs e self ts = (Inr (P1, A1), s1)" by (rule o1)
    show "s2 = s1" by (rule same)
    show "\<forall>i<length ts.
            (is_fraud (rs2 ! i) \<longrightarrow> is_fraud (rs1 ! i)) \<and>
            (is_fraud (rs1 ! i) \<and> \<not> is_fraud (rs2 ! i) \<longrightarrow>
               P1 ! i \<noteq> - 1 \<and> th1 \<le> spec_normalize (A1 ! i) \<and>
               spec_normalize (A1 ! i) < th2) \<and>
            (P1 ! i = - 1 \<longrightarrow> is_fraud (rs1 ! i) \<and> is_fraud (rs2 ! i))"
      using \<open>th1 \<le> th2\<close> n1 n2 same by (auto simp: response_for_fields)
  qed
qed

section \<open>The claims\<close>

text \<open>
  C6. The feature matrix of a transaction is one row of four numbers, in the order
  amount, merchant bucket, category bucket, customer bucket. The merchant and customer
  buckets lie in \<open>[0, 1000)\<close> and the category bucket in \<open>[0, 100)\<close>; the bucket of a
  present (non-empty) field is its hash reduced modulo the size of the range, and an
  absent field has bucket 0. An empty string counts as absent (it is false in Python,
  and CPython hashes it to 0 anyway).
\<close>

theorem extract_features_layout:
  "\<exists>m c u :: int.
     extract_features e t = [[amount t, of_int m, of_int c, of_int u]]
     \<and> length (hd (extract_features e t)) = 4
     \<and> 0 \<le> m \<and> m < 1000 \<and> 0 \<le> c \<and> c < 100 \<and> 0 \<le> u \<and> u < 1000
     \<and> (\<forall>s. merchant t = Some s \<and> s \<noteq> [] \<longrightarrow> m = py_hash e s mod 1000)
     \<and> (\<forall>s. category t = Some s \<and> s \<noteq> [] \<longrightarrow> c = py_hash e s mod 100)
     \<and> (\<forall>s. customer_id t = Some s \<and> s \<noteq> [] \<longrightarrow> u = py_hash e s mod 1000)
     \<and> (merchant t = None \<or> merchant t = Some [] \<longrightarrow> m = 0)
     \<and> (category t = None \<or> category t = Some [] \<longrightarrow> c = 0)
     \<and> (customer_id t = None \<or> customer_id t = Some [] \<longrightarrow> u = 0)"
  by (auto simp: extract_features_def truthy_def str_of_def Let_def split: option.splits)

theorem extract_features_layout_witness:
  "extract_features example_env
     \<lparr>amount = 5, merchant = Some ''acme'', category = None, customer_id = Some ''c1''\<rparr>
     = [[5, 234, 0, 234]]
   \<and> extract_features example_env (example_transaction 7) = [[7, 0, 0, 0]]"
proof -
  let ?t = "\<lparr>amount = 5, merchant = Some ''acme'', category = None, customer_id = Some ''c1''\<rparr>"
  obtain m c u :: int where
    f: "extract_features example_env ?t = [[amount ?t, of_int m, of_int c, of_int u]]"
    and m: "\<forall>s. merchant ?t = Some s \<and> s \<noteq> [] \<longrightarrow> m = py_hash example_env s mod 1000"
    and c: "category ?t = None \<or> category ?t = Some [] \<longrightarrow> c = 0"
    and u: "\<forall>s. customer_id ?t = Some s \<and> s \<noteq> [] \<longrightarrow> u = py_hash example_env s mod 1000"
    using extract_features_layout [of example_env ?t] by blast
  from m have "m = 234" by (simp add: example_env_def)
  moreover from c have "c = 0" by simp
  moreover from u have "u = 234" by (simp add: example_env_def)
  ultimately have a: "extract_features example_env ?t = [[5, 234, 0, 234]]" using f by simp
  let ?t2 = "example_transaction 7"
  obtain m c u :: int where
    f: "extract_features example_env ?t2 = [[amount ?t2, of_int m, of_int c, of_int u]]"
    and m: "merchant ?t2 = None \<or> merchant ?t2 = Some [] \<longrightarrow> m = 0"
    and c: "category ?t2 = None \<or> category ?t2 = Some [] \<longrightarrow> c = 0"
    and u: "customer_id ?t2 = None \<or> customer_id ?t2 = Some [] \<longrightarrow> u = 0"
    using extract_features_layout [of example_env ?t2] by blast
  then have b: "extract_features example_env ?t2 = [[7, 0, 0, 0]]"
    by (simp add: example_transaction_def)
  from a b show ?thesis by simp
qed

text \<open>
  C2. Whenever \<^verbatim>\<open>detect_batch\<close> returns, it returns one result per transaction, in the
  order of the input: the \<open>i\<close>-th result carries the amount, merchant, category and
  customer of the \<open>i\<close>-th transaction, and its score and verdict come from the \<open>i\<close>-th
  label and raw score of the model, which it computed on a matrix whose \<open>i\<close>-th row is
  the (rescaled) feature row of the \<open>i\<close>-th transaction. It does return when the batch
  is not empty and the model delivers a label and a score for every row; loading and
  scaling never fail on a batch that is not empty. (On the empty batch it raises,
  see C5.)
\<close>

theorem detect_batch_preserves_order:
  "(\<forall>rs self'. detect_batch e self ts = (Inr rs, self') \<longrightarrow>
      length rs = length ts \<and>
      (\<exists>self1 X m predictions anomaly_scores.
         ensure_loaded e self = Inr self1 \<and>
         scale_features self1 (map (\<lambda>t. hd (extract_features e t)) ts) = Inr (self', X) \<and>
         length X = length ts \<and> model self' = Some m \<and>
         predict m X = Inr predictions \<and> score_samples m X = Inr anomaly_scores \<and>
         (\<forall>i<length ts.
            amount (rs ! i) = amount (ts ! i) \<and>
            merchant (rs ! i) = merchant (ts ! i) \<and>
            category (rs ! i) = category (ts ! i) \<and>
            customer_id (rs ! i) = customer_id (ts ! i) \<and>
            id_field (rs ! i) = py_hash e (str_transaction e (ts ! i)) mod 1000000 \<and>
            i < length predictions \<and> i < length anomaly_scores \<and>
            fraud_score (rs ! i) = py_round (spec_normalize (anomaly_scores ! i)) 4 \<and>
            (is_fraud (rs ! i) \<longleftrightarrow>
               predictions ! i = - 1 \<or>
               FRAUD_THRESHOLD e \<le> spec_normalize (anomaly_scores ! i)) \<and>
            X ! i =
              (case scaler self1 of
                 None \<Rightarrow> hd (extract_features e (ts ! i))
               | Some sc \<Rightarrow>
                   map (\<lambda>(x, m, s). (x - m) / s)
                     (zip (hd (extract_features e (ts ! i)))
                        (zip (fit_mean (fit (map (\<lambda>t. hd (extract_features e t)) ts)))
                             (fit_scale (fit (map (\<lambda>t. hd (extract_features e t)) ts)))))))))
   \<and> (\<forall>self1 self2 X m predictions anomaly_scores.
         ts \<noteq> [] \<and> ensure_loaded e self = Inr self1 \<and>
         scale_features self1 (map (\<lambda>t. hd (extract_features e t)) ts) = Inr (self2, X) \<and>
         model self2 = Some m \<and>
         predict m X = Inr predictions \<and> score_samples m X = Inr anomaly_scores \<and>
         length ts \<le> length predictions \<and> length ts \<le> length anomaly_scores
         \<longrightarrow> (\<exists>rs. detect_batch e self ts = (Inr rs, self2)))
   \<and> (ts \<noteq> [] \<longrightarrow>
        (\<exists>self1 self2 X. ensure_loaded e self = Inr self1 \<and>
           scale_features self1 (map (\<lambda>t. hd (extract_features e t)) ts) = Inr (self2, X)))"
proof (intro conjI allI impI)
  fix rs self'
  assume run: "detect_batch e self ts = (Inr rs, self')"
  from detect_batch_nth [OF run]
  obtain P A where out: "detect_batch_outputs e self ts = (Inr (P, A), self')"
    and len: "length rs = length ts" "length ts \<le> length P" "length ts \<le> length A"
    and nth: "\<forall>i<length ts. rs ! i = response_for e (ts ! i) (P ! i) (A ! i)"
    by blast
  show "length rs = length ts" by (rule len)
  let ?F = "map (\<lambda>t. hd (extract_features e t)) ts"
  from out obtain self1 X m where load: "ensure_loaded e self = Inr self1"
    and sc: "scale_features self1 ?F = Inr (self', X)"
    and m: "model self' = Some m" "predict m X = Inr P" "score_samples m X = Inr A"
    unfolding detect_batch_outputs_Inr by blast
  have lenX: "length X = length ts"
    using scale_features_rows(1) [OF sc] by simp
  have rows: "X ! i =
              (case scaler self1 of
                 None \<Rightarrow> hd (extract_features e (ts ! i))
               | Some sc \<Rightarrow>
                   map (\<lambda>(x, m, s). (x - m) / s)
                     (zip (hd (extract_features e (ts ! i)))
                        (zip (fit_mean (fit ?F)) (fit_scale (fit ?F)))))"
    if "i < length ts" for i
    using scale_features_rows(2) [OF sc, of i] that by (simp split: option.splits)
  have each: "amount (rs ! i) = amount (ts ! i) \<and>
            merchant (rs ! i) = merchant (ts ! i) \<and>
            category (rs ! i) = category (ts ! i) \<and>
            customer_id (rs ! i) = customer_id (ts ! i) \<and>
            id_field (rs ! i) = py_hash e (str_transaction e (ts ! i)) mod 1000000 \<and>
            i < length P \<and> i < length A \<and>
            fraud_score (rs ! i) = py_round (spec_normalize (A ! i)) 4 \<and>
            (is_fraud (rs ! i) \<longleftrightarrow>
               P ! i = - 1 \<or> FRAUD_THRESHOLD e \<le> spec_normalize (A ! i)) \<and>
            X ! i =
              (case scaler self1 of
                 None \<Rightarrow> hd (extract_features e (ts ! i))
               | Some sc \<Rightarrow>
                   map (\<lambda>(x, m, s). (x - m) / s)
                     (zip (hd (extract_features e (ts ! i)))
                        (zip (fit_mean (fit ?F)) (fit_scale (fit ?F)))))"
    if i: "i < length ts" for i
  proof -
    from nth i have eq: "rs ! i = response_for e (ts ! i) (P ! i) (A ! i)" by simp
    from i len have "i < length P" "i < length A" by simp_all
    with rows [OF i] show ?thesis
      unfolding eq by (simp only: response_for_fields simp_thms)
  qed
  from load sc lenX m each
  show "\<exists>self1 X m predictions anomaly_scores.
         ensure_loaded e self = Inr self1 \<and>
         scale_features self1 ?F = Inr (self', X) \<and>
         length X = length ts \<and> model self' = Some m \<and>
         predict m X = Inr predictions \<and> score_samples m X = Inr anomaly_scores \<and>
         (\<forall>i<length ts.
            amount (rs ! i) = amount (ts ! i) \<and>
            merchant (rs ! i) = merchant (ts ! i) \<and>
            category (rs ! i) = category (ts ! i) \<and>
            customer_id (rs ! i) = customer_id (ts ! i) \<and>
            id_field (rs ! i) = py_hash e (str_transaction e (ts ! i)) mod 1000000 \<and>
            i < length predictions \<and> i < length anomaly_scores \<and>
            fraud_score (rs ! i) = py_round (spec_normalize (anomaly_scores ! i)) 4 \<and>
            (is_fraud (rs ! i) \<longleftrightarrow>
               predictions ! i = - 1 \<or>
               FRAUD_THRESHOLD e \<le> spec_normalize (anomaly_scores ! i)) \<and>
            X ! i =
              (case scaler self1 of
                 None \<Rightarrow> hd (extract_features e (ts ! i))
               | Some sc \<Rightarrow>
                   map (\<lambda>(x, m, s). (x - m) / s)
                     (zip (hd (extract_features e (ts ! i)))
                        (zip (fit_mean (fit ?F)) (fit_scale (fit ?F))))))"
    by blast
next
  fix self1 self2 X m predictions anomaly_scores
  assume h: "ts \<noteq> [] \<and> ensure_loaded e self = Inr self1 \<and>
         scale_features self1 (map (\<lambda>t. hd (extract_features e t)) ts) = Inr (self2, X) \<and>
         model self2 = Some m \<and>
         predict m X = Inr predictions \<and> score_samples m X = Inr anomaly_scores \<and>
         length ts \<le> length predictions \<and> length ts \<le> length anomaly_scores"
  then have "detect_batch_outputs e self ts = (Inr (predictions, anomaly_scores), self2)"
    unfolding detect_batch_outputs_Inr by blast
  with h show "\<exists>rs. detect_batch e self ts = (Inr rs, self2)"
    unfolding detect_batch_Inr by blast
next
  assume ne: "ts \<noteq> []"
  obtain self1 where load: "ensure_loaded e self = Inr self1"
    using ensure_loaded_Inr by blast
  from ne have "map (\<lambda>t. hd (extract_features e t)) ts \<noteq> []" by simp
  from scale_features_total [OF this, of self1] load
  show "\<exists>self1 self2 X. ensure_loaded e self = Inr self1 \<and>
           scale_features self1 (map (\<lambda>t. hd (extract_features e t)) ts) = Inr (self2, X)"
    by blast
qed

theorem detect_batch_preserves_order_witness:
  "(\<exists>rs s. detect_batch example_env example_detector
        [example_transaction 1, example_transaction 3] = (Inr rs, s) \<and>
      length rs = length [example_transaction 1, example_transaction 3] \<and>
      amount (rs ! 0) = amount (example_transaction 1) \<and>
      amount (rs ! 1) = amount (example_transaction 3))
   \<and> ensure_loaded example_env example_detector = Inr example_detector
   \<and> (\<exists>self2. scale_features example_detector
         (map (\<lambda>t. hd (extract_features example_env t))
            [example_transaction 1, example_transaction 3]) =
         Inr (self2, [[- 1, 0, 0, 0], [1, 0, 0, 0]]) \<and>
       model self2 = Some example_forest \<and>
       (\<exists>rs. detect_batch example_env example_detector
          [example_transaction 1, example_transaction 3] = (Inr rs, self2)))
   \<and> predict example_forest [[- 1, 0, 0, 0], [1, 0, 0, 0]] = Inr [- 1, 1]
   \<and> score_samples example_forest [[- 1, 0, 0, 0], [1, 0, 0, 0]] = Inr [- 3 / 4, 11 / 20]"
proof -
  let ?ts = "[example_transaction 1, example_transaction 3]"
  let ?s2 = "example_detector\<lparr>scaler := Some (StandardScaler (Some
         \<lparr>fit_mean = [2, 0, 0, 0], fit_var = [1, 0, 0, 0], fit_scale = [1, 1, 1, 1],
          n_samples_seen = 2\<rparr>))\<rparr>"
  note th = detect_batch_preserves_order [of example_env example_detector ?ts]
  from th [THEN conjunct1, rule_format, OF example_detect_batch]
  have a: "\<exists>rs s. detect_batch example_env example_detector ?ts = (Inr rs, s) \<and>
      length rs = length ?ts \<and>
      amount (rs ! 0) = amount (example_transaction 1) \<and>
      amount (rs ! 1) = amount (example_transaction 3)"
    using example_detect_batch by (auto simp: example_transaction_def)
  have m: "model ?s2 = Some example_forest" by (simp add: example_detector_def)
  have "\<exists>rs. detect_batch example_env example_detector ?ts = (Inr rs, ?s2)"
    using th [THEN conjunct2, THEN conjunct1, rule_format,
        of example_detector ?s2 "[[- 1, 0, 0, 0], [1, 0, 0, 0]]" example_forest
           "[- 1, 1]" "[- 3 / 4, 11 / 20]"]
      example_ensure_loaded example_scale_features m example_forest_outputs
    by simp
  with example_scale_features m
  have b: "\<exists>self2. scale_features example_detector
         (map (\<lambda>t. hd (extract_features example_env t)) ?ts) =
         Inr (self2, [[- 1, 0, 0, 0], [1, 0, 0, 0]]) \<and>
       model self2 = Some example_forest \<and>
       (\<exists>rs. detect_batch example_env example_detector ?ts = (Inr rs, self2))"
    by blast
  from a b example_ensure_loaded example_forest_outputs show ?thesis by blast
qed

text \<open>
  C8. The single path and the batch path agree on a batch of one: \<^verbatim>\<open>detect\<close> returns a
  result for a transaction exactly when \<^verbatim>\<open>detect_batch\<close> returns a one-element list for
  it, from the same detector, leaving the same detector behind, and the two results
  have the same fraud score and the same verdict.
\<close>

theorem single_and_batch_of_one_agree:
  "(\<forall>r self'. detect e self t = (Inr r, self') \<longrightarrow>
      (\<exists>r'. detect_batch e self [t] = (Inr [r'], self') \<and>
         fraud_score r' = fraud_score r \<and> is_fraud r' = is_fraud r))
   \<and> (\<forall>rs self'. detect_batch e self [t] = (Inr rs, self') \<longrightarrow>
      (\<exists>r r'. rs = [r'] \<and> detect e self t = (Inr r, self') \<and>
         fraud_score r' = fraud_score r \<and> is_fraud r' = is_fraud r))"
  using detect_batch_single [of e self t] by blast

theorem single_and_batch_of_one_agree_witness:
  "(\<exists>r s. detect example_env example_detector (example_transaction 1) = (Inr r, s) \<and>
      (\<exists>r'. detect_batch example_env example_detector [example_transaction 1] = (Inr [r'], s) \<and>
         fraud_score r' = 3 / 5 \<and> fraud_score r = 3 / 5 \<and> is_fraud r' \<and> is_fraud r))
   \<and> (\<exists>rs s. detect_batch example_env example_detector [example_transaction 1] = (Inr rs, s) \<and>
      (\<exists>r r'. rs = [r'] \<and>
         detect example_env example_detector (example_transaction 1) = (Inr r, s) \<and>
         fraud_score r' = fraud_score r \<and> is_fraud r' = is_fraud r))"
proof -
  note th = single_and_batch_of_one_agree [of example_env example_detector
      "example_transaction 1"]
  from th [THEN conjunct1, rule_format, OF example_detect]
  obtain r' where batch: "detect_batch example_env example_detector [example_transaction 1] =
      (Inr [r'], example_detector\<lparr>scaler := Some (StandardScaler (Some
         \<lparr>fit_mean = [1, 0, 0, 0], fit_var = [0, 0, 0, 0], fit_scale = [1, 1, 1, 1],
          n_samples_seen = 1\<rparr>))\<rparr>)"
    and same: "fraud_score r' = 3 / 5" "is_fraud r'"
    by auto
  from batch same example_detect
  have a: "\<exists>r s. detect example_env example_detector (example_transaction 1) = (Inr r, s) \<and>
      (\<exists>r'. detect_batch example_env example_detector [example_transaction 1] = (Inr [r'], s) \<and>
         fraud_score r' = 3 / 5 \<and> fraud_score r = 3 / 5 \<and> is_fraud r' \<and> is_fraud r)"
    by auto
  from th [THEN conjunct2, rule_format, OF batch] batch
  have b: "\<exists>rs s. detect_batch example_env example_detector [example_transaction 1] = (Inr rs, s) \<and>
      (\<exists>r r'. rs = [r'] \<and>
         detect example_env example_detector (example_transaction 1) = (Inr r, s) \<and>
         fraud_score r' = fraud_score r \<and> is_fraud r' = is_fraud r)"
    by blast
  from a b show ?thesis by (rule conjI)
qed

text \<open>
  C10. On the single path, with a detector that holds a scaler once it is loaded, the
  scaler is fitted on the one row it is given, so the row handed to the model is the
  zero vector whatever the transaction; hence any two transactions get the same
  outcome from \<^verbatim>\<open>detect\<close>: the same error, or the same fraud score and verdict.
\<close>

theorem single_score_ignores_content:
  "ensure_loaded e self = Inr self1 \<and> scaler self1 \<noteq> None \<longrightarrow>
     (\<exists>self2. scale_features self1 (extract_features e t1) = Inr (self2, [[0, 0, 0, 0]]))
     \<and> (\<exists>self2. scale_features self1 (extract_features e t2) = Inr (self2, [[0, 0, 0, 0]]))
     \<and> map_sum id (\<lambda>r. (fraud_score r, is_fraud r)) (fst (detect e self t1)) =
        map_sum id (\<lambda>r. (fraud_score r, is_fraud r)) (fst (detect e self t2))"
proof (intro impI, elim conjE)
  assume load: "ensure_loaded e self = Inr self1" and "scaler self1 \<noteq> None"
  then obtain sc where sc: "scaler self1 = Some sc" by blast
  have same: "fst (detect_outputs e self t1) = fst (detect_outputs e self t2)"
    by (simp only: detect_outputs_scaled_single [OF load sc])
  have proj: "map_sum id (\<lambda>r. (fraud_score r, is_fraud r)) (fst (detect e self t)) =
      map_sum id (\<lambda>(p, a). (py_round (spec_normalize a) 4,
                              p = - 1 \<or> FRAUD_THRESHOLD e \<le> spec_normalize a))
        (fst (detect_outputs e self t))" for t
    by (cases "fst (detect_outputs e self t)")
       (auto simp: fst_detect response_for_fields)
  show "(\<exists>self2. scale_features self1 (extract_features e t1) = Inr (self2, [[0, 0, 0, 0]]))
     \<and> (\<exists>self2. scale_features self1 (extract_features e t2) = Inr (self2, [[0, 0, 0, 0]]))
     \<and> map_sum id (\<lambda>r. (fraud_score r, is_fraud r)) (fst (detect e self t1)) =
        map_sum id (\<lambda>r. (fraud_score r, is_fraud r)) (fst (detect e self t2))"
    using scale_single_row [OF sc] same by (simp add: proj)
qed

theorem single_score_ignores_content_witness:
  "ensure_loaded example_env example_detector = Inr example_detector
   \<and> scaler example_detector \<noteq> None
   \<and> map_sum id (\<lambda>r. (fraud_score r, is_fraud r))
        (fst (detect example_env example_detector (example_transaction 1))) = Inr (3 / 5, True)
   \<and> map_sum id (\<lambda>r. (fraud_score r, is_fraud r))
        (fst (detect example_env example_detector
           \<lparr>amount = 5000, merchant = Some ''acme'', category = None,
              customer_id = Some ''c1''\<rparr>)) = Inr (3 / 5, True)"
proof -
  have sc: "scaler example_detector \<noteq> None" by (simp add: example_detector_def)
  have one: "map_sum id (\<lambda>r. (fraud_score r, is_fraud r))
        (fst (detect example_env example_detector (example_transaction 1))) = Inr (3 / 5, True)"
    by (simp add: example_detect)
  from single_score_ignores_content [of example_env example_detector example_detector
      "example_transaction 1"
      "\<lparr>amount = 5000, merchant = Some ''acme'', category = None, customer_id = Some ''c1''\<rparr>"]
    example_ensure_loaded sc one
  show ?thesis by simp
qed

text \<open>
  C4, as stated, fails in its last part: \<^verbatim>\<open>load_model\<close> sets the loaded flag in every
  case, but \<^verbatim>\<open>is_model_loaded\<close> also asks for a model, and an artifact that is a dict
  without the entry \<^verbatim>\<open>model\<close> leaves none.
\<close>

theorem load_not_ready_counterexample:
  "path_exists example_env ''nomodel.joblib''
   \<and> joblib_load example_env ''nomodel.joblib'' = Inr (Bundle None (Some (StandardScaler None)))
   \<and> load_model example_env new_detector (Some ''nomodel.joblib'') =
       Inr \<lparr>model = None, scaler = Some (StandardScaler None), model_loaded = True\<rparr>
   \<and> \<not> is_model_loaded
         \<lparr>model = None, scaler = Some (StandardScaler None), model_loaded = True\<rparr>"
  by (simp add: example_env_def new_detector_def load_model_def load_model_try_def py_or_def
      is_model_loaded_def)

text \<open>
  C4, amended. \<^verbatim>\<open>load_model\<close> never raises and always sets the loaded flag. When the
  path does not exist or \<^verbatim>\<open>joblib.load\<close> fails, the detector holds a fresh unfitted
  forest (contamination 0.1, random state 42, 100 estimators) and a fresh scaler, and
  \<^verbatim>\<open>is_model_loaded\<close> is true. In general \<^verbatim>\<open>is_model_loaded\<close> is true after loading
  unless the artifact exists and holds no model (a dict without the entry \<^verbatim>\<open>model\<close>,
  or the object \<^verbatim>\<open>None\<close>).
\<close>

theorem load_model_falls_back:
  "\<exists>self'. load_model e self p = Inr self' \<and> model_loaded self' \<and>
     (\<not> path_exists e (py_or p (MODEL_PATH e)) \<or>
      (\<exists>err. joblib_load e (py_or p (MODEL_PATH e)) = Inl err) \<longrightarrow>
        model self' = Some (IsolationForest 0.1 42 100 None) \<and>
        scaler self' = Some (StandardScaler None) \<and>
        is_model_loaded self') \<and>
     (is_model_loaded self' \<longleftrightarrow>
        \<not> (path_exists e (py_or p (MODEL_PATH e)) \<and>
           ((\<exists>s. joblib_load e (py_or p (MODEL_PATH e)) = Inr (Bundle None s)) \<or>
            joblib_load e (py_or p (MODEL_PATH e)) = Inr (Legacy None))))"
  by (auto simp: load_model_def load_model_try_def initialize_model_def is_model_loaded_def
      Let_def split: sum.splits artifact.splits)

theorem load_model_falls_back_witness:
  "\<not> path_exists example_env (py_or None (MODEL_PATH example_env))
   \<and> (\<exists>self'. load_model example_env new_detector None = Inr self' \<and>
        model self' = Some (IsolationForest 0.1 42 100 None) \<and>
        scaler self' = Some (StandardScaler None) \<and> is_model_loaded self')
   \<and> joblib_load example_env (py_or (Some ''corrupt.joblib'') (MODEL_PATH example_env)) =
       Inl (Exception ''could not unpickle'')
   \<and> (\<exists>self'. load_model example_env new_detector (Some ''corrupt.joblib'') = Inr self' \<and>
        model self' = Some (IsolationForest 0.1 42 100 None) \<and>
        scaler self' = Some (StandardScaler None) \<and> is_model_loaded self')"
proof -
  have ne: "\<not> path_exists example_env (py_or None (MODEL_PATH example_env))"
    by (simp add: example_env_def py_or_def)
  have bad: "joblib_load example_env (py_or (Some ''corrupt.joblib'') (MODEL_PATH example_env)) =
       Inl (Exception ''could not unpickle'')"
    by (simp add: example_env_def py_or_def)
  have a: "\<exists>self'. load_model example_env new_detector None = Inr self' \<and>
        model self' = Some (IsolationForest 0.1 42 100 None) \<and>
        scaler self' = Some (StandardScaler None) \<and> is_model_loaded self'"
    using load_model_falls_back [of example_env new_detector None] ne by blast
  have b: "\<exists>self'. load_model example_env new_detector (Some ''corrupt.joblib'') = Inr self' \<and>
        model self' = Some (IsolationForest 0.1 42 100 None) \<and>
        scaler self' = Some (StandardScaler None) \<and> is_model_loaded self'"
    using load_model_falls_back [of example_env new_detector "Some ''corrupt.joblib''"] bad
    by blast
  from ne a bad b show ?thesis by blast
qed

text \<open>
  C7. The scaler takes its statistics from the matrix it is given and from nothing
  else (whatever it was fitted on before). So with a scaler in the detector, a
  transaction whose amount differs from the mean amount of a batch is handed to the
  model as the zero row when scored alone, and as a row with a non-zero first entry
  when scored in that batch. And there are a detector, a transaction and a batch
  containing it for which the fraud score returned alone differs from the one
  returned in the batch.
\<close>

theorem score_depends_on_batch:
  "(\<forall>sc sc' F. map_sum id snd (fit_transform sc F) = map_sum id snd (fit_transform sc' F))
   \<and> (scaler self1 \<noteq> None \<and> i < length ts \<and> amount (ts ! i) \<noteq> mean (map amount ts) \<longrightarrow>
        (\<exists>s1 s2 X1 X2.
           scale_features self1 (extract_features e (ts ! i)) = Inr (s1, X1) \<and>
           scale_features self1 (map (\<lambda>t. hd (extract_features e t)) ts) = Inr (s2, X2) \<and>
           X1 = [[0, 0, 0, 0]] \<and> hd (X2 ! i) \<noteq> 0 \<and> X2 ! i \<noteq> X1 ! 0))
   \<and> (\<exists>e self t ts i r rs s s'.
         i < length ts \<and> ts ! i = t \<and>
         detect e self t = (Inr r, s) \<and> detect_batch e self ts = (Inr rs, s') \<and>
         fraud_score r \<noteq> fraud_score (rs ! i))"
proof (intro conjI impI allI)
  fix sc sc' F
  show "map_sum id snd (fit_transform sc F) = map_sum id snd (fit_transform sc' F)"
    by (simp add: fit_transform_def)
next
  assume h: "scaler self1 \<noteq> None \<and> i < length ts \<and> amount (ts ! i) \<noteq> mean (map amount ts)"
  then obtain sc where sc: "scaler self1 = Some sc" by blast
  from h have i: "i < length ts" and off: "amount (ts ! i) \<noteq> mean (map amount ts)"
    by simp_all
  let ?F = "map (\<lambda>t. hd (extract_features e t)) ts"
  from i have "?F \<noteq> []" by auto
  then obtain s2 X2 where X2: "scale_features self1 ?F = Inr (s2, X2)"
    using scale_features_total by blast
  have "hd (X2 ! i) = (amount (ts ! i) - mean (map amount ts)) /
            handle_zeros_in_scale (sqrt (variance (map amount ts)))"
    by (rule batch_row_scaled_amount [OF sc i X2])
  with off have nz: "hd (X2 ! i) \<noteq> 0"
    by (simp add: handle_zeros_in_scale_nonzero)
  then have "X2 ! i \<noteq> [[0, 0, 0, 0]] ! 0" by auto
  with scale_single_row [OF sc, of e "ts ! i"] X2 nz
  show "\<exists>s1 s2 X1 X2.
           scale_features self1 (extract_features e (ts ! i)) = Inr (s1, X1) \<and>
           scale_features self1 ?F = Inr (s2, X2) \<and>
           X1 = [[0, 0, 0, 0]] \<and> hd (X2 ! i) \<noteq> 0 \<and> X2 ! i \<noteq> X1 ! 0"
    by blast
next
  have "(0::nat) < length [example_transaction 1, example_transaction 3]"
    "[example_transaction 1, example_transaction 3] ! 0 = example_transaction 1"
    by simp_all
  moreover have "fraud_score \<lparr>amount = 1, merchant = None, category = None, customer_id = None,
            id_field = 936234, is_fraud = True, fraud_score = 3 / 5\<rparr> \<noteq>
      fraud_score ([\<lparr>amount = 1, merchant = None, category = None, customer_id = None,
             id_field = 936234, is_fraud = True, fraud_score = 1\<rparr>,
           \<lparr>amount = 3, merchant = None, category = None, customer_id = None,
             id_field = 936234, is_fraud = False, fraud_score = 0\<rparr>] ! 0)"
    by simp
  ultimately show "\<exists>e self t ts i r rs s s'.
         i < length ts \<and> ts ! i = t \<and>
         detect e self t = (Inr r, s) \<and> detect_batch e self ts = (Inr rs, s') \<and>
         fraud_score r \<noteq> fraud_score (rs ! i)"
    using example_detect example_detect_batch by blast
qed

theorem score_depends_on_batch_witness:
  "scaler example_detector \<noteq> None
   \<and> (0::nat) < length [example_transaction 1, example_transaction 3]
   \<and> amount ([example_transaction 1, example_transaction 3] ! 0) \<noteq>
       mean (map amount [example_transaction 1, example_transaction 3])
   \<and> (\<exists>s1 s2 X2.
        scale_features example_detector (extract_features example_env (example_transaction 1))
          = Inr (s1, [[0, 0, 0, 0]]) \<and>
        scale_features example_detector
          (map (\<lambda>t. hd (extract_features example_env t))
             [example_transaction 1, example_transaction 3]) = Inr (s2, X2) \<and>
        X2 ! 0 = [- 1, 0, 0, 0] \<and> X2 ! 0 \<noteq> [[0, 0, 0, 0]] ! 0)
   \<and> map_sum id fraud_score
        (fst (detect example_env example_detector (example_transaction 1))) = Inr (3 / 5)
   \<and> map_sum id (\<lambda>rs. fraud_score (rs ! 0))
        (fst (detect_batch example_env example_detector
           [example_transaction 1, example_transaction 3])) = Inr 1"
proof -
  let ?ts = "[example_transaction 1, example_transaction 3]"
  have sc: "scaler example_detector \<noteq> None" by (simp add: example_detector_def)
  have i: "(0::nat) < length ?ts" by simp
  have off: "amount (?ts ! 0) \<noteq> mean (map amount ?ts)"
    by (simp add: mean_def example_transaction_def)
  from score_depends_on_batch [of example_detector 0 ?ts example_env,
      THEN conjunct2, THEN conjunct1, rule_format, OF conjI, OF sc conjI, OF i off]
  obtain s1 s2 X1 X2 where
    "scale_features example_detector (extract_features example_env (?ts ! 0)) = Inr (s1, X1)"
    "scale_features example_detector (map (\<lambda>t. hd (extract_features example_env t)) ?ts)
       = Inr (s2, X2)"
    "X1 = [[0, 0, 0, 0]]" "X2 ! 0 \<noteq> X1 ! 0"
    by blast
  with example_scale_features
  have a: "\<exists>s1 s2 X2.
        scale_features example_detector (extract_features example_env (example_transaction 1))
          = Inr (s1, [[0, 0, 0, 0]]) \<and>
        scale_features example_detector (map (\<lambda>t. hd (extract_features example_env t)) ?ts)
          = Inr (s2, X2) \<and>
        X2 ! 0 = [- 1, 0, 0, 0] \<and> X2 ! 0 \<noteq> [[0, 0, 0, 0]] ! 0"
    by auto
  have b: "map_sum id fraud_score
        (fst (detect example_env example_detector (example_transaction 1))) = Inr (3 / 5)"
    "map_sum id (\<lambda>rs. fraud_score (rs ! 0))
        (fst (detect_batch example_env example_detector ?ts)) = Inr 1"
    by (simp_all add: example_detect example_detect_batch)
  from sc i off a b show ?thesis by blast
qed

text \<open>
  C1. On both paths the fraud score of a result is the raw score of the transaction's
  row, mapped by \<open>1 - (raw + 0.5) / 1.0\<close>, clamped to \<open>[0, 1]\<close> and rounded to four
  decimals; it lies in \<open>[0, 1]\<close>, is 1 for every raw score at or below \<open>-0.5\<close> and 0 for
  every raw score at or above \<open>0.5\<close>. \<^verbatim>\<open>detect\<close> returns such a result whenever the model
  gives a label and a raw score for the row, whatever the raw score is, and
  \<^verbatim>\<open>detect_batch\<close> whenever the batch is not empty and the model gives a label and a raw
  score for each row; and every result they return is of this kind.
\<close>

theorem fraud_score_in_unit_interval:
  "(\<forall>self1 self2 X m predictions raw_scores.
      ensure_loaded e self = Inr self1 \<and>
      scale_features self1 (extract_features e t) = Inr (self2, X) \<and>
      model self2 = Some m \<and>
      predict m X = Inr predictions \<and> score_samples m X = Inr raw_scores \<and>
      predictions \<noteq> [] \<and> raw_scores \<noteq> [] \<longrightarrow>
      (\<exists>r. detect e self t = (Inr r, self2) \<and>
         fraud_score r = py_round (spec_normalize (raw_scores ! 0)) 4 \<and>
         0 \<le> spec_normalize (raw_scores ! 0) \<and> spec_normalize (raw_scores ! 0) \<le> 1 \<and>
         0 \<le> fraud_score r \<and> fraud_score r \<le> 1 \<and>
         (raw_scores ! 0 \<le> - 0.5 \<longrightarrow> fraud_score r = 1) \<and>
         (0.5 \<le> raw_scores ! 0 \<longrightarrow> fraud_score r = 0)))
   \<and> (\<forall>r self'. detect e self t = (Inr r, self') \<longrightarrow>
      (\<exists>prediction raw_score.
         detect_outputs e self t = (Inr (prediction, raw_score), self') \<and>
         fraud_score r = py_round (spec_normalize raw_score) 4 \<and>
         0 \<le> spec_normalize raw_score \<and> spec_normalize raw_score \<le> 1 \<and>
         0 \<le> fraud_score r \<and> fraud_score r \<le> 1 \<and>
         (raw_score \<le> - 0.5 \<longrightarrow> fraud_score r = 1) \<and>
         (0.5 \<le> raw_score \<longrightarrow> fraud_score r = 0)))
   \<and> (\<forall>self1 self2 X m predictions raw_scores.
      ts \<noteq> [] \<and> ensure_loaded e self = Inr self1 \<and>
      scale_features self1 (map (\<lambda>t. hd (extract_features e t)) ts) = Inr (self2, X) \<and>
      model self2 = Some m \<and>
      predict m X = Inr predictions \<and> score_samples m X = Inr raw_scores \<and>
      length ts \<le> length predictions \<and> length ts \<le> length raw_scores \<longrightarrow>
      (\<exists>rs. detect_batch e self ts = (Inr rs, self2) \<and> length rs = length ts \<and>
         (\<forall>i<length ts.
            fraud_score (rs ! i) = py_round (spec_normalize (raw_scores ! i)) 4 \<and>
            0 \<le> spec_normalize (raw_scores ! i) \<and> spec_normalize (raw_scores ! i) \<le> 1 \<and>
            0 \<le> fraud_score (rs ! i) \<and> fraud_score (rs ! i) \<le> 1 \<and>
            (raw_scores ! i \<le> - 0.5 \<longrightarrow> fraud_score (rs ! i) = 1) \<and>
            (0.5 \<le> raw_scores ! i \<longrightarrow> fraud_score (rs ! i) = 0))))
   \<and> (\<forall>rs self'. detect_batch e self ts = (Inr rs, self') \<longrightarrow>
      (\<exists>predictions raw_scores.
         detect_batch_outputs e self ts = (Inr (predictions, raw_scores), self') \<and>
         length rs = length ts \<and> length ts \<le> length raw_scores \<and>
         (\<forall>i<length ts.
            fraud_score (rs ! i) = py_round (spec_normalize (raw_scores ! i)) 4 \<and>
            0 \<le> spec_normalize (raw_scores ! i) \<and> spec_normalize (raw_scores ! i) \<le> 1 \<and>
            0 \<le> fraud_score (rs ! i) \<and> fraud_score (rs ! i) \<le> 1 \<and>
            (raw_scores ! i \<le> - 0.5 \<longrightarrow> fraud_score (rs ! i) = 1) \<and>
            (0.5 \<le> raw_scores ! i \<longrightarrow> fraud_score (rs ! i) = 0))))"
proof (intro conjI allI impI, goal_cases)
  case (1 self1 self2 X m P A)
  then have "detect e self t = (Inr (response_for e t (P ! 0) (A ! 0)), self2)"
    using detect_returns [of e self self1 t self2 X m P A] by blast
  with score_facts [of e t "P ! 0" "A ! 0"] show ?case by blast
next
  case (2 r self')
  then obtain p a where "detect_outputs e self t = (Inr (p, a), self')"
    and "r = response_for e t p a"
    unfolding detect_Inr by blast
  with score_facts [of e t p a] show ?case by blast
next
  case (3 self1 self2 X m P A)
  then have run: "detect_batch e self ts =
     (Inr (map (\<lambda>i. response_for e (ts ! i) (P ! i) (A ! i)) [0..<length ts]), self2)"
    using detect_batch_returns [of ts e self self1 self2 X m P A] by blast
  let ?rs = "map (\<lambda>i. response_for e (ts ! i) (P ! i) (A ! i)) [0..<length ts]"
  have "\<forall>i<length ts.
            fraud_score (?rs ! i) = py_round (spec_normalize (A ! i)) 4 \<and>
            0 \<le> spec_normalize (A ! i) \<and> spec_normalize (A ! i) \<le> 1 \<and>
            0 \<le> fraud_score (?rs ! i) \<and> fraud_score (?rs ! i) \<le> 1 \<and>
            (A ! i \<le> - 0.5 \<longrightarrow> fraud_score (?rs ! i) = 1) \<and>
            (0.5 \<le> A ! i \<longrightarrow> fraud_score (?rs ! i) = 0)"
  proof (intro allI impI)
    fix i
    assume "i < length ts"
    then have eq: "?rs ! i = response_for e (ts ! i) (P ! i) (A ! i)" by simp
    show "fraud_score (?rs ! i) = py_round (spec_normalize (A ! i)) 4 \<and>
            0 \<le> spec_normalize (A ! i) \<and> spec_normalize (A ! i) \<le> 1 \<and>
            0 \<le> fraud_score (?rs ! i) \<and> fraud_score (?rs ! i) \<le> 1 \<and>
            (A ! i \<le> - 0.5 \<longrightarrow> fraud_score (?rs ! i) = 1) \<and>
            (0.5 \<le> A ! i \<longrightarrow> fraud_score (?rs ! i) = 0)"
      unfolding eq by (rule score_facts)
  qed
  moreover have "length ?rs = length ts" by simp
  ultimately show ?case using run by blast
next
  case (4 rs self')
  from detect_batch_nth [OF 4]
  obtain P A where out: "detect_batch_outputs e self ts = (Inr (P, A), self')"
    and len: "length rs = length ts" "length ts \<le> length A"
    and nth: "\<forall>i<length ts. rs ! i = response_for e (ts ! i) (P ! i) (A ! i)"
    by blast
  have "\<forall>i<length ts.
            fraud_score (rs ! i) = py_round (spec_normalize (A ! i)) 4 \<and>
            0 \<le> spec_normalize (A ! i) \<and> spec_normalize (A ! i) \<le> 1 \<and>
            0 \<le> fraud_score (rs ! i) \<and> fraud_score (rs ! i) \<le> 1 \<and>
            (A ! i \<le> - 0.5 \<longrightarrow> fraud_score (rs ! i) = 1) \<and>
            (0.5 \<le> A ! i \<longrightarrow> fraud_score (rs ! i) = 0)"
  proof (intro allI impI)
    fix i
    assume "i < length ts"
    with nth have eq: "rs ! i = response_for e (ts ! i) (P ! i) (A ! i)" by simp
    show "fraud_score (rs ! i) = py_round (spec_normalize (A ! i)) 4 \<and>
            0 \<le> spec_normalize (A ! i) \<and> spec_normalize (A ! i) \<le> 1 \<and>
            0 \<le> fraud_score (rs ! i) \<and> fraud_score (rs ! i) \<le> 1 \<and>
            (A ! i \<le> - 0.5 \<longrightarrow> fraud_score (rs ! i) = 1) \<and>
            (0.5 \<le> A ! i \<longrightarrow> fraud_score (rs ! i) = 0)"
      unfolding eq by (rule score_facts)
  qed
  with out len show ?case by blast
qed

theorem fraud_score_in_unit_interval_witness:
  "(\<exists>r s. detect example_env (constant_detector (- 1) (- 9 / 10)) (example_transaction 1)
        = (Inr r, s) \<and>
      (- 9 / 10 :: real) \<le> - 0.5 \<and> fraud_score r = 1)
   \<and> (\<exists>r s. detect example_env (constant_detector 1 (4 / 5)) (example_transaction 1)
        = (Inr r, s) \<and>
      (0.5 :: real) \<le> 4 / 5 \<and> fraud_score r = 0)
   \<and> (\<exists>r s. detect example_env example_detector (example_transaction 1) = (Inr r, s) \<and>
      fraud_score r = 3 / 5 \<and> 0 \<le> fraud_score r \<and> fraud_score r \<le> 1)
   \<and> (\<exists>rs s. detect_batch example_env example_detector
        [example_transaction 1, example_transaction 3] = (Inr rs, s) \<and>
      length rs = length [example_transaction 1, example_transaction 3] \<and>
      (- 3 / 4 :: real) \<le> - 0.5 \<and> fraud_score (rs ! 0) = 1 \<and>
      (0.5 :: real) \<le> 11 / 20 \<and> fraud_score (rs ! 1) = 0)
   \<and> (\<exists>raw_scores :: real list.
        fst (detect_batch_outputs example_env example_detector
          [example_transaction 1, example_transaction 3]) = Inr ([- 1, 1], raw_scores) \<and>
        raw_scores = [- 3 / 4, 11 / 20])"
proof -
  let ?t = "example_transaction 1"
  let ?ts = "[example_transaction 1, example_transaction 3]"
  have low: "\<exists>r s. detect example_env (constant_detector (- 1) (- 9 / 10)) ?t = (Inr r, s) \<and>
      (- 9 / 10 :: real) \<le> - 0.5 \<and> fraud_score r = 1"
  proof -
    from fraud_score_in_unit_interval [of example_env "constant_detector (- 1) (- 9 / 10)" ?t ?ts,
        THEN conjunct1, rule_format,
        of "constant_detector (- 1) (- 9 / 10)" _ "[[0, 0, 0, 0]]"
           "constant_forest (- 1) (- 9 / 10)" "[- 1]" "[- 9 / 10]"]
      constant_ensure_loaded constant_scale_features [of "- 1" "- 9 / 10" 1]
      constant_model constant_forest_outputs [of "- 1" "- 9 / 10"]
    obtain r s where "detect example_env (constant_detector (- 1) (- 9 / 10)) ?t = (Inr r, s)"
      "[- 9 / 10 :: real] ! 0 \<le> - 0.5 \<longrightarrow> fraud_score r = 1"
      by (metis list.distinct(1))
    then show ?thesis by auto
  qed
  have high: "\<exists>r s. detect example_env (constant_detector 1 (4 / 5)) ?t = (Inr r, s) \<and>
      (0.5 :: real) \<le> 4 / 5 \<and> fraud_score r = 0"
  proof -
    from fraud_score_in_unit_interval [of example_env "constant_detector 1 (4 / 5)" ?t ?ts,
        THEN conjunct1, rule_format,
        of "constant_detector 1 (4 / 5)" _ "[[0, 0, 0, 0]]"
           "constant_forest 1 (4 / 5)" "[1]" "[4 / 5]"]
      constant_ensure_loaded constant_scale_features [of 1 "4 / 5" 1]
      constant_model constant_forest_outputs [of 1 "4 / 5"]
    obtain r s where "detect example_env (constant_detector 1 (4 / 5)) ?t = (Inr r, s)"
      "0.5 \<le> [4 / 5 :: real] ! 0 \<longrightarrow> fraud_score r = 0"
      by (metis list.distinct(1))
    then show ?thesis by auto
  qed
  note th = fraud_score_in_unit_interval [of example_env example_detector ?t ?ts]
  from th [THEN conjunct2, THEN conjunct1, rule_format, OF example_detect]
  have mid: "\<exists>r s. detect example_env example_detector ?t = (Inr r, s) \<and>
       fraud_score r = 3 / 5 \<and> 0 \<le> fraud_score r \<and> fraud_score r \<le> 1"
    using example_detect by auto
  have m: "model (example_detector\<lparr>scaler := sc\<rparr>) = Some example_forest" for sc
    by (simp add: example_detector_def)
  have batch: "\<exists>rs s. detect_batch example_env example_detector ?ts = (Inr rs, s) \<and>
      length rs = length ?ts \<and>
      (- 3 / 4 :: real) \<le> - 0.5 \<and> fraud_score (rs ! 0) = 1 \<and>
      (0.5 :: real) \<le> 11 / 20 \<and> fraud_score (rs ! 1) = 0"
  proof -
    from th [THEN conjunct2, THEN conjunct2, THEN conjunct1, rule_format,
        of example_detector _ "[[- 1, 0, 0, 0], [1, 0, 0, 0]]" example_forest
           "[- 1, 1]" "[- 3 / 4, 11 / 20]"]
      example_ensure_loaded example_scale_features m example_forest_outputs
    obtain rs s where run: "detect_batch example_env example_detector ?ts = (Inr rs, s)"
      and len: "length rs = length ?ts"
      and sat: "\<forall>i<length ?ts.
        ([- 3 / 4, 11 / 20 :: real] ! i \<le> - 0.5 \<longrightarrow> fraud_score (rs ! i) = 1) \<and>
        (0.5 \<le> [- 3 / 4, 11 / 20 :: real] ! i \<longrightarrow> fraud_score (rs ! i) = 0)"
      by auto
    from sat [rule_format, of 0] sat [rule_format, of 1]
    have "fraud_score (rs ! 0) = 1" "fraud_score (rs ! 1) = 0" by simp_all
    with run len show ?thesis by auto
  qed
  from th [THEN conjunct2, THEN conjunct2, THEN conjunct2, rule_format,
      OF example_detect_batch]
  obtain P A where "detect_batch_outputs example_env example_detector ?ts =
      (Inr (P, A), example_detector\<lparr>scaler := Some (StandardScaler (Some
         \<lparr>fit_mean = [2, 0, 0, 0], fit_var = [1, 0, 0, 0], fit_scale = [1, 1, 1, 1],
          n_samples_seen = 2\<rparr>))\<rparr>)"
    by blast
  with example_detect_batch_outputs
  have outs: "\<exists>raw_scores :: real list.
        fst (detect_batch_outputs example_env example_detector ?ts)
          = Inr ([- 1, 1], raw_scores) \<and>
        raw_scores = [- 3 / 4, 11 / 20]"
    by simp
  from low high mid batch outs show ?thesis by blast
qed

text \<open>
  C3. On both paths a result is flagged as fraud exactly when the model labelled its
  row anomalous (\<open>-1\<close>) or its normalized score is at least the configured threshold:
  an anomalous label alone flags it, a score at or above the threshold alone flags it,
  and a row labelled normal whose normalized score is strictly below the threshold is
  not flagged. The score compared with the threshold is the clamped one, before
  rounding. \<^verbatim>\<open>detect\<close> and \<^verbatim>\<open>detect_batch\<close> return such a verdict whenever the model
  gives a label and a raw score for every row, whatever they are.
\<close>

theorem verdict_is_label_or_threshold:
  "(\<forall>self1 self2 X m predictions raw_scores.
      ensure_loaded e self = Inr self1 \<and>
      scale_features self1 (extract_features e t) = Inr (self2, X) \<and>
      model self2 = Some m \<and>
      predict m X = Inr predictions \<and> score_samples m X = Inr raw_scores \<and>
      predictions \<noteq> [] \<and> raw_scores \<noteq> [] \<longrightarrow>
      (\<exists>r. detect e self t = (Inr r, self2) \<and>
         (is_fraud r \<longleftrightarrow>
            predictions ! 0 = - 1 \<or> FRAUD_THRESHOLD e \<le> spec_normalize (raw_scores ! 0)) \<and>
         (predictions ! 0 = - 1 \<longrightarrow> is_fraud r) \<and>
         (FRAUD_THRESHOLD e \<le> spec_normalize (raw_scores ! 0) \<longrightarrow> is_fraud r) \<and>
         (predictions ! 0 \<noteq> - 1 \<and> spec_normalize (raw_scores ! 0) < FRAUD_THRESHOLD e
            \<longrightarrow> \<not> is_fraud r)))
   \<and> (\<forall>r self'. detect e self t = (Inr r, self') \<longrightarrow>
      (\<exists>prediction raw_score.
         detect_outputs e self t = (Inr (prediction, raw_score), self') \<and>
         (is_fraud r \<longleftrightarrow> prediction = - 1 \<or> FRAUD_THRESHOLD e \<le> spec_normalize raw_score) \<and>
         (prediction \<noteq> - 1 \<and> spec_normalize raw_score < FRAUD_THRESHOLD e
            \<longrightarrow> \<not> is_fraud r)))
   \<and> (\<forall>self1 self2 X m predictions raw_scores.
      ts \<noteq> [] \<and> ensure_loaded e self = Inr self1 \<and>
      scale_features self1 (map (\<lambda>t. hd (extract_features e t)) ts) = Inr (self2, X) \<and>
      model self2 = Some m \<and>
      predict m X = Inr predictions \<and> score_samples m X = Inr raw_scores \<and>
      length ts \<le> length predictions \<and> length ts \<le> length raw_scores \<longrightarrow>
      (\<exists>rs. detect_batch e self ts = (Inr rs, self2) \<and> length rs = length ts \<and>
         (\<forall>i<length ts.
            (is_fraud (rs ! i) \<longleftrightarrow>
               predictions ! i = - 1 \<or> FRAUD_THRESHOLD e \<le> spec_normalize (raw_scores ! i)) \<and>
            (predictions ! i = - 1 \<longrightarrow> is_fraud (rs ! i)) \<and>
            (FRAUD_THRESHOLD e \<le> spec_normalize (raw_scores ! i) \<longrightarrow> is_fraud (rs ! i)) \<and>
            (predictions ! i \<noteq> - 1 \<and> spec_normalize (raw_scores ! i) < FRAUD_THRESHOLD e
               \<longrightarrow> \<not> is_fraud (rs ! i)))))
   \<and> (\<forall>rs self'. detect_batch e self ts = (Inr rs, self') \<longrightarrow>
      (\<exists>predictions raw_scores.
         detect_batch_outputs e self ts = (Inr (predictions, raw_scores), self') \<and>
         length ts \<le> length predictions \<and> length ts \<le> length raw_scores \<and>
         (\<forall>i<length ts.
            (is_fraud (rs ! i) \<longleftrightarrow>
               predictions ! i = - 1 \<or> FRAUD_THRESHOLD e \<le> spec_normalize (raw_scores ! i)) \<and>
            (predictions ! i \<noteq> - 1 \<and> spec_normalize (raw_scores ! i) < FRAUD_THRESHOLD e
               \<longrightarrow> \<not> is_fraud (rs ! i)))))"
proof (intro conjI allI impI, goal_cases)
  case (1 self1 self2 X m P A)
  then have "detect e self t = (Inr (response_for e t (P ! 0) (A ! 0)), self2)"
    using detect_returns [of e self self1 t self2 X m P A] by blast
  with verdict_facts [of e t "P ! 0" "A ! 0"] show ?case by blast
next
  case (2 r self')
  then obtain p a where "detect_outputs e self t = (Inr (p, a), self')"
    and "r = response_for e t p a"
    unfolding detect_Inr by blast
  with verdict_facts [of e t p a] show ?case by blast
next
  case (3 self1 self2 X m P A)
  then have run: "detect_batch e self ts =
     (Inr (map (\<lambda>i. response_for e (ts ! i) (P ! i) (A ! i)) [0..<length ts]), self2)"
    using detect_batch_returns [of ts e self self1 self2 X m P A] by blast
  let ?rs = "map (\<lambda>i. response_for e (ts ! i) (P ! i) (A ! i)) [0..<length ts]"
  have "\<forall>i<length ts.
            (is_fraud (?rs ! i) \<longleftrightarrow>
               P ! i = - 1 \<or> FRAUD_THRESHOLD e \<le> spec_normalize (A ! i)) \<and>
            (P ! i = - 1 \<longrightarrow> is_fraud (?rs ! i)) \<and>
            (FRAUD_THRESHOLD e \<le> spec_normalize (A ! i) \<longrightarrow> is_fraud (?rs ! i)) \<and>
            (P ! i \<noteq> - 1 \<and> spec_normalize (A ! i) < FRAUD_THRESHOLD e
               \<longrightarrow> \<not> is_fraud (?rs ! i))"
  proof (intro allI impI)
    fix i
    assume "i < length ts"
    then have eq: "?rs ! i = response_for e (ts ! i) (P ! i) (A ! i)" by simp
    show "(is_fraud (?rs ! i) \<longleftrightarrow>
               P ! i = - 1 \<or> FRAUD_THRESHOLD e \<le> spec_normalize (A ! i)) \<and>
            (P ! i = - 1 \<longrightarrow> is_fraud (?rs ! i)) \<and>
            (FRAUD_THRESHOLD e \<le> spec_normalize (A ! i) \<longrightarrow> is_fraud (?rs ! i)) \<and>
            (P ! i \<noteq> - 1 \<and> spec_normalize (A ! i) < FRAUD_THRESHOLD e
               \<longrightarrow> \<not> is_fraud (?rs ! i))"
      unfolding eq by (rule verdict_facts)
  qed
  moreover have "length ?rs = length ts" by simp
  ultimately show ?case using run by blast
next
  case (4 rs self')
  from detect_batch_nth [OF 4]
  obtain P A where out: "detect_batch_outputs e self ts = (Inr (P, A), self')"
    and len: "length ts \<le> length P" "length ts \<le> length A"
    and nth: "\<forall>i<length ts. rs ! i = response_for e (ts ! i) (P ! i) (A ! i)"
    by blast
  from nth have "\<forall>i<length ts.
            (is_fraud (rs ! i) \<longleftrightarrow>
               P ! i = - 1 \<or> FRAUD_THRESHOLD e \<le> spec_normalize (A ! i)) \<and>
            (P ! i \<noteq> - 1 \<and> spec_normalize (A ! i) < FRAUD_THRESHOLD e
               \<longrightarrow> \<not> is_fraud (rs ! i))"
    by (auto simp: response_for_fields)
  with out len show ?case by blast
qed

theorem verdict_is_label_or_threshold_witness:
  "(\<exists>r s. detect example_env (constant_detector (- 1) (3 / 10)) (example_transaction 1)
        = (Inr r, s) \<and>
      spec_normalize (3 / 10) < FRAUD_THRESHOLD example_env \<and> is_fraud r)
   \<and> (\<exists>r s. detect example_env (constant_detector 1 (- 1 / 10)) (example_transaction 1)
        = (Inr r, s) \<and>
      FRAUD_THRESHOLD example_env \<le> spec_normalize (- 1 / 10) \<and> is_fraud r)
   \<and> (\<exists>r s. detect example_env (constant_detector 1 (3 / 10)) (example_transaction 1)
        = (Inr r, s) \<and>
      spec_normalize (3 / 10) < FRAUD_THRESHOLD example_env \<and> \<not> is_fraud r)
   \<and> (\<exists>r s. detect example_env example_detector (example_transaction 1) = (Inr r, s) \<and>
      fst (detect_outputs example_env example_detector (example_transaction 1))
        = Inr (1, - 1 / 10) \<and> is_fraud r)
   \<and> (\<exists>rs s. detect_batch example_env (constant_detector (- 1) (3 / 10))
        [example_transaction 1, example_transaction 3] = (Inr rs, s) \<and>
      is_fraud (rs ! 0) \<and> is_fraud (rs ! 1))
   \<and> (\<exists>rs s. detect_batch example_env (constant_detector 1 (- 1 / 10))
        [example_transaction 1, example_transaction 3] = (Inr rs, s) \<and>
      is_fraud (rs ! 0) \<and> is_fraud (rs ! 1))
   \<and> (\<exists>rs s. detect_batch example_env (constant_detector 1 (3 / 10))
        [example_transaction 1, example_transaction 3] = (Inr rs, s) \<and>
      \<not> is_fraud (rs ! 0) \<and> \<not> is_fraud (rs ! 1))
   \<and> (\<exists>rs s. detect_batch example_env example_detector
        [example_transaction 1, example_transaction 3] = (Inr rs, s) \<and>
      fst (detect_batch_outputs example_env example_detector
        [example_transaction 1, example_transaction 3]) = Inr ([- 1, 1], [- 3 / 4, 11 / 20]) \<and>
      is_fraud (rs ! 0) \<and> \<not> is_fraud (rs ! 1))"
proof -
  let ?t = "example_transaction 1"
  let ?ts = "[example_transaction 1, example_transaction 3]"
  have single: "\<exists>r s. detect example_env (constant_detector l x) ?t = (Inr r, s) \<and>
      (is_fraud r \<longleftrightarrow> l = - 1 \<or> 1 / 2 \<le> spec_normalize x)" for l x
  proof -
    from verdict_is_label_or_threshold [of example_env "constant_detector l x" ?t ?ts,
        THEN conjunct1, rule_format,
        of "constant_detector l x" _ "[[0, 0, 0, 0]]" "constant_forest l x" "[l]" "[x]"]
      constant_ensure_loaded constant_scale_features [of l x 1]
      constant_model constant_forest_outputs [of l x]
    obtain r s where "detect example_env (constant_detector l x) ?t = (Inr r, s)"
      "is_fraud r \<longleftrightarrow> [l] ! 0 = - 1 \<or> FRAUD_THRESHOLD example_env \<le> spec_normalize ([x] ! 0)"
      by (metis list.distinct(1))
    then show ?thesis by (auto simp: example_threshold)
  qed
  have batch: "\<exists>rs s. detect_batch example_env (constant_detector l x) ?ts = (Inr rs, s) \<and>
      (is_fraud (rs ! 0) \<longleftrightarrow> l = - 1 \<or> 1 / 2 \<le> spec_normalize x) \<and>
      (is_fraud (rs ! 1) \<longleftrightarrow> l = - 1 \<or> 1 / 2 \<le> spec_normalize x)" for l x
  proof -
    from verdict_is_label_or_threshold [of example_env "constant_detector l x" ?t ?ts,
        THEN conjunct2, THEN conjunct2, THEN conjunct1, rule_format,
        of "constant_detector l x" _ "[[- 1, 0, 0, 0], [1, 0, 0, 0]]" "constant_forest l x"
           "[l, l]" "[x, x]"]
      constant_ensure_loaded constant_scale_features_batch [of l x]
      constant_model constant_forest_outputs_batch [of l x]
    obtain rs s where run: "detect_batch example_env (constant_detector l x) ?ts = (Inr rs, s)"
      and v: "\<forall>i<length ?ts. (is_fraud (rs ! i) \<longleftrightarrow>
          [l, l] ! i = - 1 \<or> FRAUD_THRESHOLD example_env \<le> spec_normalize ([x, x] ! i))"
      by auto
    from v [rule_format, of 0] v [rule_format, of 1] run show ?thesis
      by (auto simp: example_threshold)
  qed
  note th = verdict_is_label_or_threshold [of example_env example_detector ?t ?ts]
  from th [THEN conjunct2, THEN conjunct1, rule_format, OF example_detect]
  obtain p a where "detect_outputs example_env example_detector ?t =
     (Inr (p, a), example_detector\<lparr>scaler := Some (StandardScaler (Some
         \<lparr>fit_mean = [1, 0, 0, 0], fit_var = [0, 0, 0, 0], fit_scale = [1, 1, 1, 1],
          n_samples_seen = 1\<rparr>))\<rparr>)"
    "is_fraud \<lparr>amount = 1, merchant = None, category = None, customer_id = None,
            id_field = 936234, is_fraud = True, fraud_score = 3 / 5\<rparr> \<longleftrightarrow>
          p = - 1 \<or> FRAUD_THRESHOLD example_env \<le> spec_normalize a"
    by blast
  then have one: "\<exists>r s. detect example_env example_detector ?t = (Inr r, s) \<and>
      fst (detect_outputs example_env example_detector ?t) = Inr (1, - 1 / 10) \<and> is_fraud r"
    using example_detect example_detect_outputs by auto
  from th [THEN conjunct2, THEN conjunct2, THEN conjunct2, rule_format, OF example_detect_batch]
  obtain P A where out: "detect_batch_outputs example_env example_detector ?ts =
         (Inr (P, A), example_detector\<lparr>scaler := Some (StandardScaler (Some
         \<lparr>fit_mean = [2, 0, 0, 0], fit_var = [1, 0, 0, 0], fit_scale = [1, 1, 1, 1],
          n_samples_seen = 2\<rparr>))\<rparr>)"
    and v: "\<forall>i<length ?ts.
       (is_fraud
          ([\<lparr>amount = 1, merchant = None, category = None, customer_id = None,
             id_field = 936234, is_fraud = True, fraud_score = 1\<rparr>,
           \<lparr>amount = 3, merchant = None, category = None, customer_id = None,
             id_field = 936234, is_fraud = False, fraud_score = 0\<rparr>] ! i) \<longleftrightarrow>
          P ! i = - 1 \<or> FRAUD_THRESHOLD example_env \<le> spec_normalize (A ! i))"
    by blast
  from out example_detect_batch_outputs have PA: "P = [- 1, 1]" "A = [- 3 / 4, 11 / 20]"
    by simp_all
  from v [rule_format, of 0] v [rule_format, of 1] PA
  have two: "\<exists>rs s. detect_batch example_env example_detector ?ts = (Inr rs, s) \<and>
      fst (detect_batch_outputs example_env example_detector ?ts)
        = Inr ([- 1, 1], [- 3 / 4, 11 / 20]) \<and>
      is_fraud (rs ! 0) \<and> \<not> is_fraud (rs ! 1)"
    using example_detect_batch example_detect_batch_outputs by auto
  have n: "spec_normalize (3 / 10) = 1 / 5" "spec_normalize (- 1 / 10) = 3 / 5"
    by (simp_all add: spec_normalize_def)
  have thr: "spec_normalize (3 / 10) < FRAUD_THRESHOLD example_env"
    "FRAUD_THRESHOLD example_env \<le> spec_normalize (- 1 / 10)"
    unfolding n example_threshold by simp_all
  have c1: "\<exists>r s. detect example_env (constant_detector (- 1) (3 / 10)) ?t = (Inr r, s) \<and>
      spec_normalize (3 / 10) < FRAUD_THRESHOLD example_env \<and> is_fraud r"
    using single [of "- 1" "3 / 10"] thr by auto
  have c2: "\<exists>r s. detect example_env (constant_detector 1 (- 1 / 10)) ?t = (Inr r, s) \<and>
      FRAUD_THRESHOLD example_env \<le> spec_normalize (- 1 / 10) \<and> is_fraud r"
    using single [of 1 "- 1 / 10"] thr unfolding n by auto
  have c3: "\<exists>r s. detect example_env (constant_detector 1 (3 / 10)) ?t = (Inr r, s) \<and>
      spec_normalize (3 / 10) < FRAUD_THRESHOLD example_env \<and> \<not> is_fraud r"
    using single [of 1 "3 / 10"] thr unfolding n by auto
  have c5: "\<exists>rs s. detect_batch example_env (constant_detector (- 1) (3 / 10)) ?ts = (Inr rs, s) \<and>
      is_fraud (rs ! 0) \<and> is_fraud (rs ! 1)"
    using batch [of "- 1" "3 / 10"] by auto
  have c6: "\<exists>rs s. detect_batch example_env (constant_detector 1 (- 1 / 10)) ?ts = (Inr rs, s) \<and>
      is_fraud (rs ! 0) \<and> is_fraud (rs ! 1)"
    using batch [of 1 "- 1 / 10"] unfolding n by auto
  have c7: "\<exists>rs s. detect_batch example_env (constant_detector 1 (3 / 10)) ?ts = (Inr rs, s) \<and>
      \<not> is_fraud (rs ! 0) \<and> \<not> is_fraud (rs ! 1)"
    using batch [of 1 "3 / 10"] unfolding n by auto
  from c1 c2 c3 one c5 c6 c7 two show ?thesis by blast
qed

text \<open>
  C9. For the same detector and transaction and two thresholds \<open>th1 \<le> th2\<close>: the
  model's label and raw score do not depend on the threshold; a verdict that is fraud
  at \<open>th2\<close> is fraud at \<open>th1\<close>; a verdict flips from fraud to normal only if the label is
  normal and the normalized score lies in \<open>[th1, th2)\<close>, that is, only verdicts driven
  by the score are sensitive to the threshold; and with an anomalous label the verdict
  is fraud at every threshold. The same holds for every row of a batch. At every
  threshold the two paths return a verdict whenever the model gives a label and a raw
  score for every row.
\<close>

theorem threshold_monotone:
  "(th1 \<le> th2 \<longrightarrow>
   (\<forall>r1 r2 s1 s2.
      detect (e\<lparr>FRAUD_THRESHOLD := th1\<rparr>) self t = (Inr r1, s1) \<and>
      detect (e\<lparr>FRAUD_THRESHOLD := th2\<rparr>) self t = (Inr r2, s2) \<longrightarrow>
      (\<exists>prediction raw_score.
         detect_outputs e self t = (Inr (prediction, raw_score), s1) \<and> s2 = s1 \<and>
         (is_fraud r2 \<longrightarrow> is_fraud r1) \<and>
         (is_fraud r1 \<and> \<not> is_fraud r2 \<longrightarrow>
            prediction \<noteq> - 1 \<and> th1 \<le> spec_normalize raw_score \<and>
            spec_normalize raw_score < th2) \<and>
         (prediction = - 1 \<longrightarrow> is_fraud r1 \<and> is_fraud r2)))
   \<and> (\<forall>rs1 rs2 s1 s2.
      detect_batch (e\<lparr>FRAUD_THRESHOLD := th1\<rparr>) self ts = (Inr rs1, s1) \<and>
      detect_batch (e\<lparr>FRAUD_THRESHOLD := th2\<rparr>) self ts = (Inr rs2, s2) \<longrightarrow>
      (\<exists>predictions raw_scores.
         detect_batch_outputs e self ts = (Inr (predictions, raw_scores), s1) \<and> s2 = s1 \<and>
         (\<forall>i<length ts.
            (is_fraud (rs2 ! i) \<longrightarrow> is_fraud (rs1 ! i)) \<and>
            (is_fraud (rs1 ! i) \<and> \<not> is_fraud (rs2 ! i) \<longrightarrow>
               predictions ! i \<noteq> - 1 \<and> th1 \<le> spec_normalize (raw_scores ! i) \<and>
               spec_normalize (raw_scores ! i) < th2) \<and>
            (predictions ! i = - 1 \<longrightarrow> is_fraud (rs1 ! i) \<and> is_fraud (rs2 ! i))))))
   \<and> (\<forall>th self1 self2 X m predictions raw_scores.
      ensure_loaded e self = Inr self1 \<and>
      scale_features self1 (extract_features e t) = Inr (self2, X) \<and>
      model self2 = Some m \<and>
      predict m X = Inr predictions \<and> score_samples m X = Inr raw_scores \<and>
      predictions \<noteq> [] \<and> raw_scores \<noteq> [] \<longrightarrow>
      (\<exists>r. detect (e\<lparr>FRAUD_THRESHOLD := th\<rparr>) self t = (Inr r, self2) \<and>
         (is_fraud r \<longleftrightarrow> predictions ! 0 = - 1 \<or> th \<le> spec_normalize (raw_scores ! 0)) \<and>
         (predictions ! 0 = - 1 \<longrightarrow> is_fraud r)))
   \<and> (\<forall>th self1 self2 X m predictions raw_scores.
      ts \<noteq> [] \<and> ensure_loaded e self = Inr self1 \<and>
      scale_features self1 (map (\<lambda>t. hd (extract_features e t)) ts) = Inr (self2, X) \<and>
      model self2 = Some m \<and>
      predict m X = Inr predictions \<and> score_samples m X = Inr raw_scores \<and>
      length ts \<le> length predictions \<and> length ts \<le> length raw_scores \<longrightarrow>
      (\<exists>rs. detect_batch (e\<lparr>FRAUD_THRESHOLD := th\<rparr>) self ts = (Inr rs, self2) \<and>
         length rs = length ts \<and>
         (\<forall>i<length ts.
            (is_fraud (rs ! i) \<longleftrightarrow>
               predictions ! i = - 1 \<or> th \<le> spec_normalize (raw_scores ! i)) \<and>
            (predictions ! i = - 1 \<longrightarrow> is_fraud (rs ! i)))))"
proof (intro conjI)
  show "th1 \<le> th2 \<longrightarrow>
   (\<forall>r1 r2 s1 s2.
      detect (e\<lparr>FRAUD_THRESHOLD := th1\<rparr>) self t = (Inr r1, s1) \<and>
      detect (e\<lparr>FRAUD_THRESHOLD := th2\<rparr>) self t = (Inr r2, s2) \<longrightarrow>
      (\<exists>prediction raw_score.
         detect_outputs e self t = (Inr (prediction, raw_score), s1) \<and> s2 = s1 \<and>
         (is_fraud r2 \<longrightarrow> is_fraud r1) \<and>
         (is_fraud r1 \<and> \<not> is_fraud r2 \<longrightarrow>
            prediction \<noteq> - 1 \<and> th1 \<le> spec_normalize raw_score \<and>
            spec_normalize raw_score < th2) \<and>
         (prediction = - 1 \<longrightarrow> is_fraud r1 \<and> is_fraud r2)))
   \<and> (\<forall>rs1 rs2 s1 s2.
      detect_batch (e\<lparr>FRAUD_THRESHOLD := th1\<rparr>) self ts = (Inr rs1, s1) \<and>
      detect_batch (e\<lparr>FRAUD_THRESHOLD := th2\<rparr>) self ts = (Inr rs2, s2) \<longrightarrow>
      (\<exists>predictions raw_scores.
         detect_batch_outputs e self ts = (Inr (predictions, raw_scores), s1) \<and> s2 = s1 \<and>
         (\<forall>i<length ts.
            (is_fraud (rs2 ! i) \<longrightarrow> is_fraud (rs1 ! i)) \<and>
            (is_fraud (rs1 ! i) \<and> \<not> is_fraud (rs2 ! i) \<longrightarrow>
               predictions ! i \<noteq> - 1 \<and> th1 \<le> spec_normalize (raw_scores ! i) \<and>
               spec_normalize (raw_scores ! i) < th2) \<and>
            (predictions ! i = - 1 \<longrightarrow> is_fraud (rs1 ! i) \<and> is_fraud (rs2 ! i)))))"
    by (rule threshold_flips)
next
  show "\<forall>th self1 self2 X m predictions raw_scores.
      ensure_loaded e self = Inr self1 \<and>
      scale_features self1 (extract_features e t) = Inr (self2, X) \<and>
      model self2 = Some m \<and>
      predict m X = Inr predictions \<and> score_samples m X = Inr raw_scores \<and>
      predictions \<noteq> [] \<and> raw_scores \<noteq> [] \<longrightarrow>
      (\<exists>r. detect (e\<lparr>FRAUD_THRESHOLD := th\<rparr>) self t = (Inr r, self2) \<and>
         (is_fraud r \<longleftrightarrow> predictions ! 0 = - 1 \<or> th \<le> spec_normalize (raw_scores ! 0)) \<and>
         (predictions ! 0 = - 1 \<longrightarrow> is_fraud r))"
  proof (intro allI impI, goal_cases)
    case (1 th self1 self2 X m P A)
    let ?e = "e\<lparr>FRAUD_THRESHOLD := th\<rparr>"
    from 1 have "detect ?e self t = (Inr (response_for ?e t (P ! 0) (A ! 0)), self2)"
      using detect_returns [of ?e self self1 t self2 X m P A]
      by (simp add: ensure_loaded_threshold extract_features_threshold)
    with verdict_facts [of ?e t "P ! 0" "A ! 0"] show ?case by auto
  qed
next
  show "\<forall>th self1 self2 X m predictions raw_scores.
      ts \<noteq> [] \<and> ensure_loaded e self = Inr self1 \<and>
      scale_features self1 (map (\<lambda>t. hd (extract_features e t)) ts) = Inr (self2, X) \<and>
      model self2 = Some m \<and>
      predict m X = Inr predictions \<and> score_samples m X = Inr raw_scores \<and>
      length ts \<le> length predictions \<and> length ts \<le> length raw_scores \<longrightarrow>
      (\<exists>rs. detect_batch (e\<lparr>FRAUD_THRESHOLD := th\<rparr>) self ts = (Inr rs, self2) \<and>
         length rs = length ts \<and>
         (\<forall>i<length ts.
            (is_fraud (rs ! i) \<longleftrightarrow>
               predictions ! i = - 1 \<or> th \<le> spec_normalize (raw_scores ! i)) \<and>
            (predictions ! i = - 1 \<longrightarrow> is_fraud (rs ! i))))"
  proof (intro allI impI, goal_cases)
    case (1 th self1 self2 X m P A)
    let ?e = "e\<lparr>FRAUD_THRESHOLD := th\<rparr>"
    let ?rs = "map (\<lambda>i. response_for ?e (ts ! i) (P ! i) (A ! i)) [0..<length ts]"
    from 1 have run: "detect_batch ?e self ts = (Inr ?rs, self2)"
      using detect_batch_returns [of ts ?e self self1 self2 X m P A]
      by (simp add: ensure_loaded_threshold extract_features_threshold)
    have "\<forall>i<length ts.
            (is_fraud (?rs ! i) \<longleftrightarrow> P ! i = - 1 \<or> th \<le> spec_normalize (A ! i)) \<and>
            (P ! i = - 1 \<longrightarrow> is_fraud (?rs ! i))"
      by (simp add: response_for_fields)
    moreover have "length ?rs = length ts" by simp
    ultimately show ?case using run by blast
  qed
qed

theorem threshold_monotone_witness:
  "(1 / 2 :: real) \<le> 7 / 10
   \<and> (\<exists>r1 r2 s.
        detect (example_env\<lparr>FRAUD_THRESHOLD := 1 / 2\<rparr>) example_detector
          (example_transaction 1) = (Inr r1, s) \<and>
        detect (example_env\<lparr>FRAUD_THRESHOLD := 7 / 10\<rparr>) example_detector
          (example_transaction 1) = (Inr r2, s) \<and>
        is_fraud r1 \<and> \<not> is_fraud r2 \<and>
        (\<exists>prediction raw_score.
           detect_outputs example_env example_detector (example_transaction 1) =
             (Inr (prediction, raw_score), s) \<and>
           prediction \<noteq> - 1 \<and> 1 / 2 \<le> spec_normalize raw_score \<and>
           spec_normalize raw_score < 7 / 10))
   \<and> (\<exists>rs1 rs2 s predictions raw_scores.
        detect_batch (example_env\<lparr>FRAUD_THRESHOLD := 1 / 2\<rparr>) example_detector
          [example_transaction 1, example_transaction 3] = (Inr rs1, s) \<and>
        detect_batch (example_env\<lparr>FRAUD_THRESHOLD := 7 / 10\<rparr>) example_detector
          [example_transaction 1, example_transaction 3] = (Inr rs2, s) \<and>
        detect_batch_outputs example_env example_detector
          [example_transaction 1, example_transaction 3] = (Inr (predictions, raw_scores), s) \<and>
        predictions ! 0 = - 1 \<and> is_fraud (rs1 ! 0) \<and> is_fraud (rs2 ! 0))
   \<and> (\<exists>r1 r2 s.
        detect (example_env\<lparr>FRAUD_THRESHOLD := 1 / 2\<rparr>) (constant_detector (- 1) (3 / 10))
          (example_transaction 1) = (Inr r1, s) \<and>
        detect (example_env\<lparr>FRAUD_THRESHOLD := 1\<rparr>) (constant_detector (- 1) (3 / 10))
          (example_transaction 1) = (Inr r2, s) \<and>
        spec_normalize (3 / 10) < 1 / 2 \<and> is_fraud r1 \<and> is_fraud r2)
   \<and> (\<exists>rs1 rs2 s.
        detect_batch (example_env\<lparr>FRAUD_THRESHOLD := 1 / 2\<rparr>) (constant_detector (- 1) (3 / 10))
          [example_transaction 1, example_transaction 3] = (Inr rs1, s) \<and>
        detect_batch (example_env\<lparr>FRAUD_THRESHOLD := 1\<rparr>) (constant_detector (- 1) (3 / 10))
          [example_transaction 1, example_transaction 3] = (Inr rs2, s) \<and>
        is_fraud (rs1 ! 1) \<and> is_fraud (rs2 ! 1))"
proof -
  have le: "(1 / 2 :: real) \<le> 7 / 10" by simp
  note th = threshold_monotone [of "1 / 2" "7 / 10" example_env example_detector
      "example_transaction 1" "[example_transaction 1, example_transaction 3]",
      THEN conjunct1, rule_format, OF le]
  from th [THEN conjunct1, rule_format, OF conjI, OF example_detect_threshold [of "1 / 2"]
      example_detect_threshold [of "7 / 10"]]
  have a: "\<exists>r1 r2 s.
        detect (example_env\<lparr>FRAUD_THRESHOLD := 1 / 2\<rparr>) example_detector
          (example_transaction 1) = (Inr r1, s) \<and>
        detect (example_env\<lparr>FRAUD_THRESHOLD := 7 / 10\<rparr>) example_detector
          (example_transaction 1) = (Inr r2, s) \<and>
        is_fraud r1 \<and> \<not> is_fraud r2 \<and>
        (\<exists>prediction raw_score.
           detect_outputs example_env example_detector (example_transaction 1) =
             (Inr (prediction, raw_score), s) \<and>
           prediction \<noteq> - 1 \<and> 1 / 2 \<le> spec_normalize raw_score \<and>
           spec_normalize raw_score < 7 / 10)"
    using example_detect_threshold [of "1 / 2"] example_detect_threshold [of "7 / 10"]
    by auto
  from th [THEN conjunct2, rule_format, OF conjI, OF example_detect_batch_threshold [of "1 / 2"]
      example_detect_batch_threshold [of "7 / 10"]]
  obtain P A where out: "detect_batch_outputs example_env example_detector
          [example_transaction 1, example_transaction 3] =
            (Inr (P, A), example_detector\<lparr>scaler := Some (StandardScaler (Some
         \<lparr>fit_mean = [2, 0, 0, 0], fit_var = [1, 0, 0, 0], fit_scale = [1, 1, 1, 1],
          n_samples_seen = 2\<rparr>))\<rparr>)"
    by blast
  with example_detect_batch_outputs have "P ! 0 = - 1" by simp
  with out have b: "\<exists>rs1 rs2 s predictions raw_scores.
        detect_batch (example_env\<lparr>FRAUD_THRESHOLD := 1 / 2\<rparr>) example_detector
          [example_transaction 1, example_transaction 3] = (Inr rs1, s) \<and>
        detect_batch (example_env\<lparr>FRAUD_THRESHOLD := 7 / 10\<rparr>) example_detector
          [example_transaction 1, example_transaction 3] = (Inr rs2, s) \<and>
        detect_batch_outputs example_env example_detector
          [example_transaction 1, example_transaction 3] = (Inr (predictions, raw_scores), s) \<and>
        predictions ! 0 = - 1 \<and> is_fraud (rs1 ! 0) \<and> is_fraud (rs2 ! 0)"
    using example_detect_batch_threshold [of "1 / 2"] example_detect_batch_threshold [of "7 / 10"]
    by auto
  let ?t = "example_transaction 1"
  let ?ts = "[example_transaction 1, example_transaction 3]"
  let ?d = "constant_detector (- 1) (3 / 10)"
  note anomalous = threshold_monotone [of "1 / 2" "7 / 10" example_env ?d ?t ?ts,
      THEN conjunct2]
  have single: "\<exists>r. detect (example_env\<lparr>FRAUD_THRESHOLD := th\<rparr>) ?d ?t =
        (Inr r, ?d\<lparr>scaler := Some (StandardScaler (Some
            \<lparr>fit_mean = [1, 0, 0, 0], fit_var = [0, 0, 0, 0], fit_scale = [1, 1, 1, 1],
             n_samples_seen = 1\<rparr>))\<rparr>) \<and> is_fraud r" for th
  proof -
    from anomalous [THEN conjunct1, rule_format,
        of ?d _ "[[0, 0, 0, 0]]" "constant_forest (- 1) (3 / 10)" "[- 1]" "[3 / 10]" th]
      constant_ensure_loaded constant_scale_features [of "- 1" "3 / 10" 1]
      constant_model constant_forest_outputs [of "- 1" "3 / 10"]
    show ?thesis by auto
  qed
  have batch: "\<exists>rs. detect_batch (example_env\<lparr>FRAUD_THRESHOLD := th\<rparr>) ?d ?ts =
        (Inr rs, ?d\<lparr>scaler := Some (StandardScaler (Some
            \<lparr>fit_mean = [2, 0, 0, 0], fit_var = [1, 0, 0, 0], fit_scale = [1, 1, 1, 1],
             n_samples_seen = 2\<rparr>))\<rparr>) \<and> is_fraud (rs ! 1)" for th
  proof -
    from anomalous [THEN conjunct2, rule_format,
        of ?d _ "[[- 1, 0, 0, 0], [1, 0, 0, 0]]" "constant_forest (- 1) (3 / 10)"
           "[- 1, - 1]" "[3 / 10, 3 / 10]" th]
      constant_ensure_loaded constant_scale_features_batch [of "- 1" "3 / 10"]
      constant_model constant_forest_outputs_batch [of "- 1" "3 / 10"]
    obtain rs where run: "detect_batch (example_env\<lparr>FRAUD_THRESHOLD := th\<rparr>) ?d ?ts =
        (Inr rs, ?d\<lparr>scaler := Some (StandardScaler (Some
            \<lparr>fit_mean = [2, 0, 0, 0], fit_var = [1, 0, 0, 0], fit_scale = [1, 1, 1, 1],
             n_samples_seen = 2\<rparr>))\<rparr>)"
      and v: "\<forall>i<length ?ts. [- 1, - 1 :: int] ! i = - 1 \<longrightarrow> is_fraud (rs ! i)"
      by auto
    from v [rule_format, of 1] run show ?thesis by auto
  qed
  have low: "spec_normalize (3 / 10) < 1 / 2" by (simp add: spec_normalize_def)
  from single [of "1 / 2"] single [of 1] low
  have c: "\<exists>r1 r2 s.
        detect (example_env\<lparr>FRAUD_THRESHOLD := 1 / 2\<rparr>) ?d ?t = (Inr r1, s) \<and>
        detect (example_env\<lparr>FRAUD_THRESHOLD := 1\<rparr>) ?d ?t = (Inr r2, s) \<and>
        spec_normalize (3 / 10) < 1 / 2 \<and> is_fraud r1 \<and> is_fraud r2"
    by blast
  from batch [of "1 / 2"] batch [of 1]
  have d: "\<exists>rs1 rs2 s.
        detect_batch (example_env\<lparr>FRAUD_THRESHOLD := 1 / 2\<rparr>) ?d ?ts = (Inr rs1, s) \<and>
        detect_batch (example_env\<lparr>FRAUD_THRESHOLD := 1\<rparr>) ?d ?ts = (Inr rs2, s) \<and>
        is_fraud (rs1 ! 1) \<and> is_fraud (rs2 ! 1)"
    by blast
  from le a b c d show ?thesis by blast
qed

text \<open>
  C5, as stated, fails in one part: the error \<^verbatim>\<open>detect_batch\<close> raises on an empty list
  is the one \<^verbatim>\<open>np.vstack\<close> raises for an empty list of arrays; the detector has no
  check or message of its own, and the message names neither the batch nor its
  transactions.
\<close>

theorem empty_batch_error_counterexample:
  "fst (detect_batch example_env example_detector []) =
     Inl (ValueError ''need at least one array to concatenate'')
   \<and> vstack [] = Inl (ValueError ''need at least one array to concatenate'')
   \<and> \<not> spec_identifies_batch (ValueError ''need at least one array to concatenate'')"
  by (simp add: detect_batch_def detect_batch_outputs_def ensure_loaded_def example_detector_def
      vstack_def spec_identifies_batch_def)

text \<open>
  C5, amended. Called on an empty list of transactions, \<^verbatim>\<open>detect_batch\<close> fails after
  loading and before any scaling or scoring, with numpy's
  \<^verbatim>\<open>ValueError\<close> \<open>need at least one array to concatenate\<close>, which does not name the
  batch; it never returns an empty list of results. And a call never returns a part of
  the results: whenever it returns a list, the batch was not empty and there is one
  result per transaction.
\<close>

theorem empty_batch_fails:
  "(\<exists>self1 err. ensure_loaded e self = Inr self1 \<and>
      detect_batch e self [] = (Inl err, self1) \<and>
      err = ValueError ''need at least one array to concatenate'' \<and>
      vstack [] = Inl err \<and> \<not> spec_identifies_batch err)
   \<and> (\<forall>rs. fst (detect_batch e self []) \<noteq> Inr rs)
   \<and> (\<forall>ts rs self'. detect_batch e self ts = (Inr rs, self') \<longrightarrow>
         ts \<noteq> [] \<and> length rs = length ts)"
proof (intro conjI)
  obtain self1 where load: "ensure_loaded e self = Inr self1"
    using ensure_loaded_Inr by blast
  then have run: "detect_batch e self [] =
      (Inl (ValueError ''need at least one array to concatenate''), self1)"
    by (simp add: detect_batch_def detect_batch_outputs_def vstack_def)
  have "vstack [] = Inl (ValueError ''need at least one array to concatenate'')"
    by (simp add: vstack_def)
  moreover have "\<not> spec_identifies_batch (ValueError ''need at least one array to concatenate'')"
    by (simp add: spec_identifies_batch_def)
  ultimately show "\<exists>self1 err. ensure_loaded e self = Inr self1 \<and>
      detect_batch e self [] = (Inl err, self1) \<and>
      err = ValueError ''need at least one array to concatenate'' \<and>
      vstack [] = Inl err \<and> \<not> spec_identifies_batch err"
    using load run by blast
  from run show "\<forall>rs. fst (detect_batch e self []) \<noteq> Inr rs" by simp
  show "\<forall>ts rs self'. detect_batch e self ts = (Inr rs, self') \<longrightarrow>
         ts \<noteq> [] \<and> length rs = length ts"
  proof (intro allI impI)
    fix ts rs self'
    assume r: "detect_batch e self ts = (Inr rs, self')"
    then have "length rs = length ts" by (auto simp: detect_batch_Inr)
    moreover from r have "ts \<noteq> []"
      using detect_batch_outputs_empty [of e self] by (auto simp: detect_batch_Inr)
    ultimately show "ts \<noteq> [] \<and> length rs = length ts" by simp
  qed
qed

theorem empty_batch_fails_witness:
  "detect_batch example_env example_detector [] =
     (Inl (ValueError ''need at least one array to concatenate''), example_detector)
   \<and> (\<exists>self1. ensure_loaded example_env new_detector = Inr self1 \<and>
        detect_batch example_env new_detector [] =
          (Inl (ValueError ''need at least one array to concatenate''), self1))
   \<and> (\<exists>rs s. detect_batch example_env example_detector
        [example_transaction 1, example_transaction 3] = (Inr rs, s) \<and>
        [example_transaction 1, example_transaction 3] \<noteq> [] \<and>
        length rs = length [example_transaction 1, example_transaction 3])"
proof -
  from empty_batch_fails [of example_env example_detector, THEN conjunct1] example_ensure_loaded
  have a: "detect_batch example_env example_detector [] =
     (Inl (ValueError ''need at least one array to concatenate''), example_detector)"
    by auto
  from empty_batch_fails [of example_env new_detector, THEN conjunct1]
  have b: "\<exists>self1. ensure_loaded example_env new_detector = Inr self1 \<and>
        detect_batch example_env new_detector [] =
          (Inl (ValueError ''need at least one array to concatenate''), self1)"
    by auto
  from empty_batch_fails [of example_env example_detector, THEN conjunct2, THEN conjunct2,
      rule_format, OF example_detect_batch] example_detect_batch
  have c: "\<exists>rs s. detect_batch example_env example_detector
        [example_transaction 1, example_transaction 3] = (Inr rs, s) \<and>
        [example_transaction 1, example_transaction 3] \<noteq> [] \<and>
        length rs = length [example_transaction 1, example_transaction 3]"
    by auto
  from a b c show ?thesis by blast
qed

end
